theory Spec2Isabelle
  imports Main "HOL-Library.Word"
begin

section \<open>JavaScript strings\<close>

text \<open>
  A JavaScript string is a sequence of UTF-16 code units. \<open>utf16\<close> writes an ASCII
  literal of the source (\<^verbatim>\<open>"Bearer"\<close>) as such a sequence.
\<close>

type_synonym code_unit = "16 word"

type_synonym jsstring = "code_unit list"

definition utf16 :: "string \<Rightarrow> jsstring" where
  "utf16 cs = map of_char cs"

text \<open>
  The class \<^verbatim>\<open>\s\<close> of a regular expression: the code units of ECMAScript's
  WhiteSpace and LineTerminator productions.
\<close>

definition isWhiteSpace :: "code_unit \<Rightarrow> bool" where
  "isWhiteSpace c \<longleftrightarrow>
     List.member
       [0x0009, 0x000A, 0x000B, 0x000C, 0x000D, 0x0020, 0x00A0, 0x1680,
        0x2028, 0x2029, 0x202F, 0x205F, 0x3000, 0xFEFF] c
     \<or> (0x2000 \<le> c \<and> c \<le> 0x200A)"

text \<open>
  Canonicalize of a regular expression with the flag \<^verbatim>\<open>i\<close> and without the flag
  \<^verbatim>\<open>u\<close>: a code unit is compared through its upper case. An ASCII letter goes to its
  ASCII capital. A code unit from 128 on never canonicalizes to an ASCII one (the
  language keeps it, or maps it to another code unit from 128 on), so against the
  ASCII letters of a pattern it compares as itself, which is what the model returns.
\<close>

definition Canonicalize :: "code_unit \<Rightarrow> code_unit" where
  "Canonicalize c = (if 0x61 \<le> c \<and> c \<le> 0x7A then c - 0x20 else c)"

definition isASCII :: "code_unit \<Rightarrow> bool" where
  "isASCII c \<longleftrightarrow> c < 0x80"

definition isASCIIUpper :: "code_unit \<Rightarrow> bool" where
  "isASCIIUpper c \<longleftrightarrow> 0x41 \<le> c \<and> c \<le> 0x5A"

definition toASCIILower :: "code_unit \<Rightarrow> code_unit" where
  "toASCIILower c = (if isASCIIUpper c then c + 0x20 else c)"

subsection \<open>\<^verbatim>\<open>String.prototype.toLowerCase\<close>\<close>

text \<open>
  \<^verbatim>\<open>name.toLowerCase()\<close> reads the string as code points, maps every code point to its
  lowercase mapping in the Unicode Character Database (UnicodeData.txt, and the mappings
  of SpecialCasing.txt that depend on no language), and writes the code points back as
  UTF-16.
\<close>

definition isLeadingSurrogate :: "code_unit \<Rightarrow> bool" where
  "isLeadingSurrogate c \<longleftrightarrow> 0xD800 \<le> c \<and> c \<le> 0xDBFF"

definition isTrailingSurrogate :: "code_unit \<Rightarrow> bool" where
  "isTrailingSurrogate c \<longleftrightarrow> 0xDC00 \<le> c \<and> c \<le> 0xDFFF"

text \<open>StringToCodePoints: a leading surrogate followed by a trailing one is the code
  point of the pair; any other code unit, a lone surrogate too, is a code point by
  itself.\<close>

fun StringToCodePoints :: "jsstring \<Rightarrow> nat list" where
  "StringToCodePoints [] = []"
| "StringToCodePoints [c] = [unat c]"
| "StringToCodePoints (c # d # cs) =
     (if isLeadingSurrogate c \<and> isTrailingSurrogate d
      then ((unat c - 0xD800) * 0x400 + (unat d - 0xDC00) + 0x10000) # StringToCodePoints cs
      else unat c # StringToCodePoints (d # cs))"

definition UTF16EncodeCodePoint :: "nat \<Rightarrow> jsstring" where
  "UTF16EncodeCodePoint cp =
     (if cp \<le> 0xFFFF then [of_nat cp]
      else [of_nat ((cp - 0x10000) div 0x400 + 0xD800),
            of_nat ((cp - 0x10000) mod 0x400 + 0xDC00)])"

definition CodePointsToString :: "nat list \<Rightarrow> jsstring" where
  "CodePointsToString cps = concat (map UTF16EncodeCodePoint cps)"

text \<open>
  The tables of the database are kept as search trees over the code points: the rows of
  a left subtree lie below the row of the node, those of the right subtree above it.
\<close>

datatype 'r search_tree = Leaf | Node "'r search_tree" 'r "'r search_tree"

text \<open>
  The simple lowercase mappings of UnicodeData.txt (Unicode 14.0; a later version adds
  rows only for code points that this one leaves without a mapping). A row
  \<open>(lo, hi, step, target)\<close> maps the code points \<open>lo\<close>, \<open>lo + step\<close>, ... up to \<open>hi\<close>
  to \<open>target\<close>, \<open>target + step\<close>, ...; a code point in no row is its own lowercase.
\<close>

definition simpleLowercaseRows :: "(nat \<times> nat \<times> nat \<times> nat) search_tree" where
  "simpleLowercaseRows =
     Node
      (Node
       (Node
        (Node
         (Node
          (Node
           (Node (Node Leaf (0x0041, 0x005A, 1, 0x0061) Leaf) (0x00C0, 0x00D6, 1, 0x00E0) Leaf)
           (0x00D8, 0x00DE, 1, 0x00F8)
           (Node (Node Leaf (0x0100, 0x012E, 2, 0x0101) Leaf) (0x0132, 0x0136, 2, 0x0133) Leaf))
          (0x0139, 0x0147, 2, 0x013A)
          (Node
           (Node (Node Leaf (0x014A, 0x0176, 2, 0x014B) Leaf) (0x0178, 0x0178, 1, 0x00FF) Leaf)
           (0x0179, 0x017D, 2, 0x017A)
           (Node (Node Leaf (0x0181, 0x0181, 1, 0x0253) Leaf) (0x0182, 0x0184, 2, 0x0183) Leaf)))
         (0x0186, 0x0186, 1, 0x0254)
         (Node
          (Node
           (Node (Node Leaf (0x0187, 0x0187, 1, 0x0188) Leaf) (0x0189, 0x018A, 1, 0x0256) Leaf)
           (0x018B, 0x018B, 1, 0x018C)
           (Node (Node Leaf (0x018E, 0x018E, 1, 0x01DD) Leaf) (0x018F, 0x018F, 1, 0x0259) Leaf))
          (0x0190, 0x0190, 1, 0x025B)
          (Node
           (Node (Node Leaf (0x0191, 0x0191, 1, 0x0192) Leaf) (0x0193, 0x0193, 1, 0x0260) Leaf)
           (0x0194, 0x0194, 1, 0x0263)
           (Node Leaf (0x0196, 0x0196, 1, 0x0269) Leaf))))
        (0x0197, 0x0197, 1, 0x0268)
        (Node
         (Node
          (Node
           (Node (Node Leaf (0x0198, 0x0198, 1, 0x0199) Leaf) (0x019C, 0x019C, 1, 0x026F) Leaf)
           (0x019D, 0x019D, 1, 0x0272)
           (Node (Node Leaf (0x019F, 0x019F, 1, 0x0275) Leaf) (0x01A0, 0x01A4, 2, 0x01A1) Leaf))
          (0x01A6, 0x01A6, 1, 0x0280)
          (Node
           (Node (Node Leaf (0x01A7, 0x01A7, 1, 0x01A8) Leaf) (0x01A9, 0x01A9, 1, 0x0283) Leaf)
           (0x01AC, 0x01AC, 1, 0x01AD)
           (Node (Node Leaf (0x01AE, 0x01AE, 1, 0x0288) Leaf) (0x01AF, 0x01AF, 1, 0x01B0) Leaf)))
         (0x01B1, 0x01B2, 1, 0x028A)
         (Node
          (Node
           (Node (Node Leaf (0x01B3, 0x01B5, 2, 0x01B4) Leaf) (0x01B7, 0x01B7, 1, 0x0292) Leaf)
           (0x01B8, 0x01B8, 1, 0x01B9)
           (Node (Node Leaf (0x01BC, 0x01BC, 1, 0x01BD) Leaf) (0x01C4, 0x01C4, 1, 0x01C6) Leaf))
          (0x01C5, 0x01C5, 1, 0x01C6)
          (Node
           (Node (Node Leaf (0x01C7, 0x01C7, 1, 0x01C9) Leaf) (0x01C8, 0x01C8, 1, 0x01C9) Leaf)
           (0x01CA, 0x01CA, 1, 0x01CC)
           (Node Leaf (0x01CB, 0x01DB, 2, 0x01CC) Leaf)))))
       (0x01DE, 0x01EE, 2, 0x01DF)
       (Node
        (Node
         (Node
          (Node
           (Node (Node Leaf (0x01F1, 0x01F1, 1, 0x01F3) Leaf) (0x01F2, 0x01F4, 2, 0x01F3) Leaf)
           (0x01F6, 0x01F6, 1, 0x0195)
           (Node (Node Leaf (0x01F7, 0x01F7, 1, 0x01BF) Leaf) (0x01F8, 0x021E, 2, 0x01F9) Leaf))
          (0x0220, 0x0220, 1, 0x019E)
          (Node
           (Node (Node Leaf (0x0222, 0x0232, 2, 0x0223) Leaf) (0x023A, 0x023A, 1, 0x2C65) Leaf)
           (0x023B, 0x023B, 1, 0x023C)
           (Node (Node Leaf (0x023D, 0x023D, 1, 0x019A) Leaf) (0x023E, 0x023E, 1, 0x2C66) Leaf)))
         (0x0241, 0x0241, 1, 0x0242)
         (Node
          (Node
           (Node (Node Leaf (0x0243, 0x0243, 1, 0x0180) Leaf) (0x0244, 0x0244, 1, 0x0289) Leaf)
           (0x0245, 0x0245, 1, 0x028C)
           (Node (Node Leaf (0x0246, 0x024E, 2, 0x0247) Leaf) (0x0370, 0x0372, 2, 0x0371) Leaf))
          (0x0376, 0x0376, 1, 0x0377)
          (Node
           (Node (Node Leaf (0x037F, 0x037F, 1, 0x03F3) Leaf) (0x0386, 0x0386, 1, 0x03AC) Leaf)
           (0x0388, 0x038A, 1, 0x03AD)
           (Node Leaf (0x038C, 0x038C, 1, 0x03CC) Leaf))))
        (0x038E, 0x038F, 1, 0x03CD)
        (Node
         (Node
          (Node
           (Node (Node Leaf (0x0391, 0x03A1, 1, 0x03B1) Leaf) (0x03A3, 0x03AB, 1, 0x03C3) Leaf)
           (0x03CF, 0x03CF, 1, 0x03D7)
           (Node (Node Leaf (0x03D8, 0x03EE, 2, 0x03D9) Leaf) (0x03F4, 0x03F4, 1, 0x03B8) Leaf))
          (0x03F7, 0x03F7, 1, 0x03F8)
          (Node
           (Node (Node Leaf (0x03F9, 0x03F9, 1, 0x03F2) Leaf) (0x03FA, 0x03FA, 1, 0x03FB) Leaf)
           (0x03FD, 0x03FF, 1, 0x037B)
           (Node Leaf (0x0400, 0x040F, 1, 0x0450) Leaf)))
         (0x0410, 0x042F, 1, 0x0430)
         (Node
          (Node
           (Node (Node Leaf (0x0460, 0x0480, 2, 0x0461) Leaf) (0x048A, 0x04BE, 2, 0x048B) Leaf)
           (0x04C0, 0x04C0, 1, 0x04CF)
           (Node (Node Leaf (0x04C1, 0x04CD, 2, 0x04C2) Leaf) (0x04D0, 0x052E, 2, 0x04D1) Leaf))
          (0x0531, 0x0556, 1, 0x0561)
          (Node
           (Node (Node Leaf (0x10A0, 0x10C5, 1, 0x2D00) Leaf) (0x10C7, 0x10C7, 1, 0x2D27) Leaf)
           (0x10CD, 0x10CD, 1, 0x2D2D)
           (Node Leaf (0x13A0, 0x13EF, 1, 0xAB70) Leaf))))))
      (0x13F0, 0x13F5, 1, 0x13F8)
      (Node
       (Node
        (Node
         (Node
          (Node
           (Node (Node Leaf (0x1C90, 0x1CBA, 1, 0x10D0) Leaf) (0x1CBD, 0x1CBF, 1, 0x10FD) Leaf)
           (0x1E00, 0x1E94, 2, 0x1E01)
           (Node (Node Leaf (0x1E9E, 0x1E9E, 1, 0x00DF) Leaf) (0x1EA0, 0x1EFE, 2, 0x1EA1) Leaf))
          (0x1F08, 0x1F0F, 1, 0x1F00)
          (Node
           (Node (Node Leaf (0x1F18, 0x1F1D, 1, 0x1F10) Leaf) (0x1F28, 0x1F2F, 1, 0x1F20) Leaf)
           (0x1F38, 0x1F3F, 1, 0x1F30)
           (Node (Node Leaf (0x1F48, 0x1F4D, 1, 0x1F40) Leaf) (0x1F59, 0x1F5F, 2, 0x1F51) Leaf)))
         (0x1F68, 0x1F6F, 1, 0x1F60)
         (Node
          (Node
           (Node (Node Leaf (0x1F88, 0x1F8F, 1, 0x1F80) Leaf) (0x1F98, 0x1F9F, 1, 0x1F90) Leaf)
           (0x1FA8, 0x1FAF, 1, 0x1FA0)
           (Node (Node Leaf (0x1FB8, 0x1FB9, 1, 0x1FB0) Leaf) (0x1FBA, 0x1FBB, 1, 0x1F70) Leaf))
          (0x1FBC, 0x1FBC, 1, 0x1FB3)
          (Node
           (Node (Node Leaf (0x1FC8, 0x1FCB, 1, 0x1F72) Leaf) (0x1FCC, 0x1FCC, 1, 0x1FC3) Leaf)
           (0x1FD8, 0x1FD9, 1, 0x1FD0)
           (Node Leaf (0x1FDA, 0x1FDB, 1, 0x1F76) Leaf))))
        (0x1FE8, 0x1FE9, 1, 0x1FE0)
        (Node
         (Node
          (Node
           (Node (Node Leaf (0x1FEA, 0x1FEB, 1, 0x1F7A) Leaf) (0x1FEC, 0x1FEC, 1, 0x1FE5) Leaf)
           (0x1FF8, 0x1FF9, 1, 0x1F78)
           (Node (Node Leaf (0x1FFA, 0x1FFB, 1, 0x1F7C) Leaf) (0x1FFC, 0x1FFC, 1, 0x1FF3) Leaf))
          (0x2126, 0x2126, 1, 0x03C9)
          (Node
           (Node (Node Leaf (0x212A, 0x212A, 1, 0x006B) Leaf) (0x212B, 0x212B, 1, 0x00E5) Leaf)
           (0x2132, 0x2132, 1, 0x214E)
           (Node (Node Leaf (0x2160, 0x216F, 1, 0x2170) Leaf) (0x2183, 0x2183, 1, 0x2184) Leaf)))
         (0x24B6, 0x24CF, 1, 0x24D0)
         (Node
          (Node
           (Node (Node Leaf (0x2C00, 0x2C2F, 1, 0x2C30) Leaf) (0x2C60, 0x2C60, 1, 0x2C61) Leaf)
           (0x2C62, 0x2C62, 1, 0x026B)
           (Node (Node Leaf (0x2C63, 0x2C63, 1, 0x1D7D) Leaf) (0x2C64, 0x2C64, 1, 0x027D) Leaf))
          (0x2C67, 0x2C6B, 2, 0x2C68)
          (Node
           (Node (Node Leaf (0x2C6D, 0x2C6D, 1, 0x0251) Leaf) (0x2C6E, 0x2C6E, 1, 0x0271) Leaf)
           (0x2C6F, 0x2C6F, 1, 0x0250)
           (Node Leaf (0x2C70, 0x2C70, 1, 0x0252) Leaf)))))
       (0x2C72, 0x2C72, 1, 0x2C73)
       (Node
        (Node
         (Node
          (Node
           (Node (Node Leaf (0x2C75, 0x2C75, 1, 0x2C76) Leaf) (0x2C7E, 0x2C7F, 1, 0x023F) Leaf)
           (0x2C80, 0x2CE2, 2, 0x2C81)
           (Node (Node Leaf (0x2CEB, 0x2CED, 2, 0x2CEC) Leaf) (0x2CF2, 0x2CF2, 1, 0x2CF3) Leaf))
          (0xA640, 0xA66C, 2, 0xA641)
          (Node
           (Node (Node Leaf (0xA680, 0xA69A, 2, 0xA681) Leaf) (0xA722, 0xA72E, 2, 0xA723) Leaf)
           (0xA732, 0xA76E, 2, 0xA733)
           (Node (Node Leaf (0xA779, 0xA77B, 2, 0xA77A) Leaf) (0xA77D, 0xA77D, 1, 0x1D79) Leaf)))
         (0xA77E, 0xA786, 2, 0xA77F)
         (Node
          (Node
           (Node (Node Leaf (0xA78B, 0xA78B, 1, 0xA78C) Leaf) (0xA78D, 0xA78D, 1, 0x0265) Leaf)
           (0xA790, 0xA792, 2, 0xA791)
           (Node (Node Leaf (0xA796, 0xA7A8, 2, 0xA797) Leaf) (0xA7AA, 0xA7AA, 1, 0x0266) Leaf))
          (0xA7AB, 0xA7AB, 1, 0x025C)
          (Node
           (Node (Node Leaf (0xA7AC, 0xA7AC, 1, 0x0261) Leaf) (0xA7AD, 0xA7AD, 1, 0x026C) Leaf)
           (0xA7AE, 0xA7AE, 1, 0x026A)
           (Node Leaf (0xA7B0, 0xA7B0, 1, 0x029E) Leaf))))
        (0xA7B1, 0xA7B1, 1, 0x0287)
        (Node
         (Node
          (Node
           (Node (Node Leaf (0xA7B2, 0xA7B2, 1, 0x029D) Leaf) (0xA7B3, 0xA7B3, 1, 0xAB53) Leaf)
           (0xA7B4, 0xA7C2, 2, 0xA7B5)
           (Node (Node Leaf (0xA7C4, 0xA7C4, 1, 0xA794) Leaf) (0xA7C5, 0xA7C5, 1, 0x0282) Leaf))
          (0xA7C6, 0xA7C6, 1, 0x1D8E)
          (Node
           (Node (Node Leaf (0xA7C7, 0xA7C9, 2, 0xA7C8) Leaf) (0xA7D0, 0xA7D0, 1, 0xA7D1) Leaf)
           (0xA7D6, 0xA7D8, 2, 0xA7D7)
           (Node Leaf (0xA7F5, 0xA7F5, 1, 0xA7F6) Leaf)))
         (0xFF21, 0xFF3A, 1, 0xFF41)
         (Node
          (Node
           (Node (Node Leaf (0x10400, 0x10427, 1, 0x10428) Leaf) (0x104B0, 0x104D3, 1, 0x104D8) Leaf)
           (0x10570, 0x1057A, 1, 0x10597)
           (Node (Node Leaf (0x1057C, 0x1058A, 1, 0x105A3) Leaf) (0x1058C, 0x10592, 1, 0x105B3) Leaf))
          (0x10594, 0x10595, 1, 0x105BB)
          (Node
           (Node (Node Leaf (0x10C80, 0x10CB2, 1, 0x10CC0) Leaf) (0x118A0, 0x118BF, 1, 0x118C0) Leaf)
           (0x16E40, 0x16E5F, 1, 0x16E60)
           (Node Leaf (0x1E900, 0x1E921, 1, 0x1E922) Leaf))))))"

fun lowercaseIn :: "(nat \<times> nat \<times> nat \<times> nat) search_tree \<Rightarrow> nat \<Rightarrow> nat" where
  "lowercaseIn Leaf c = c"
| "lowercaseIn (Node l (lo, hi, step, target) r) c =
     (if c < lo then lowercaseIn l c
      else if hi < c then lowercaseIn r c
      else if (c - lo) mod step = 0 then target + (c - lo)
      else c)"

text \<open>The full mapping: SpecialCasing.txt has one lowercase mapping without a
  condition, of U+0130 to the two code points U+0069 U+0307.\<close>

definition Lowercase_Mapping :: "nat \<Rightarrow> nat list" where
  "Lowercase_Mapping c =
     (if c = 0x0130 then [0x0069, 0x0307] else [lowercaseIn simpleLowercaseRows c])"

fun inRanges :: "(nat \<times> nat) search_tree \<Rightarrow> nat \<Rightarrow> bool" where
  "inRanges Leaf c = False"
| "inRanges (Node l (lo, hi) r) c =
     (if c < lo then inRanges l c else if hi < c then inRanges r c else True)"

text \<open>The code points with the property Case_Ignorable (DerivedCoreProperties.txt,
  Unicode 14.0), as ranges.\<close>

definition caseIgnorableRanges :: "(nat \<times> nat) search_tree" where
  "caseIgnorableRanges =
     Node
      (Node
       (Node
        (Node
         (Node
          (Node
           (Node
            (Node (Node Leaf (0x0027, 0x0027) Leaf) (0x002E, 0x002E) (Node Leaf (0x003A, 0x003A) Leaf))
            (0x005E, 0x005E)
            (Node (Node Leaf (0x0060, 0x0060) Leaf) (0x00A8, 0x00A8) Leaf))
           (0x00AD, 0x00AD)
           (Node
            (Node (Node Leaf (0x00AF, 0x00AF) Leaf) (0x00B4, 0x00B4) (Node Leaf (0x00B7, 0x00B8) Leaf))
            (0x02B0, 0x036F)
            (Node (Node Leaf (0x0374, 0x0375) Leaf) (0x037A, 0x037A) Leaf)))
          (0x0384, 0x0385)
          (Node
           (Node
            (Node (Node Leaf (0x0387, 0x0387) Leaf) (0x0483, 0x0489) (Node Leaf (0x0559, 0x0559) Leaf))
            (0x055F, 0x055F)
            (Node (Node Leaf (0x0591, 0x05BD) Leaf) (0x05BF, 0x05BF) Leaf))
           (0x05C1, 0x05C2)
           (Node
            (Node (Node Leaf (0x05C4, 0x05C5) Leaf) (0x05C7, 0x05C7) Leaf)
            (0x05F4, 0x05F4)
            (Node (Node Leaf (0x0600, 0x0605) Leaf) (0x0610, 0x061A) Leaf))))
         (0x061C, 0x061C)
         (Node
          (Node
           (Node
            (Node (Node Leaf (0x0640, 0x0640) Leaf) (0x064B, 0x065F) (Node Leaf (0x0670, 0x0670) Leaf))
            (0x06D6, 0x06DD)
            (Node (Node Leaf (0x06DF, 0x06E8) Leaf) (0x06EA, 0x06ED) Leaf))
           (0x070F, 0x070F)
           (Node
            (Node (Node Leaf (0x0711, 0x0711) Leaf) (0x0730, 0x074A) (Node Leaf (0x07A6, 0x07B0) Leaf))
            (0x07EB, 0x07F5)
            (Node (Node Leaf (0x07FA, 0x07FA) Leaf) (0x07FD, 0x07FD) Leaf)))
          (0x0816, 0x082D)
          (Node
           (Node
            (Node (Node Leaf (0x0859, 0x085B) Leaf) (0x0888, 0x0888) (Node Leaf (0x0890, 0x0891) Leaf))
            (0x0898, 0x089F)
            (Node (Node Leaf (0x08C9, 0x0902) Leaf) (0x093A, 0x093A) Leaf))
           (0x093C, 0x093C)
           (Node
            (Node (Node Leaf (0x0941, 0x0948) Leaf) (0x094D, 0x094D) Leaf)
            (0x0951, 0x0957)
            (Node (Node Leaf (0x0962, 0x0963) Leaf) (0x0971, 0x0971) Leaf)))))
        (0x0981, 0x0981)
        (Node
         (Node
          (Node
           (Node
            (Node (Node Leaf (0x09BC, 0x09BC) Leaf) (0x09C1, 0x09C4) (Node Leaf (0x09CD, 0x09CD) Leaf))
            (0x09E2, 0x09E3)
            (Node (Node Leaf (0x09FE, 0x09FE) Leaf) (0x0A01, 0x0A02) Leaf))
           (0x0A3C, 0x0A3C)
           (Node
            (Node (Node Leaf (0x0A41, 0x0A42) Leaf) (0x0A47, 0x0A48) (Node Leaf (0x0A4B, 0x0A4D) Leaf))
            (0x0A51, 0x0A51)
            (Node (Node Leaf (0x0A70, 0x0A71) Leaf) (0x0A75, 0x0A75) Leaf)))
          (0x0A81, 0x0A82)
          (Node
           (Node
            (Node (Node Leaf (0x0ABC, 0x0ABC) Leaf) (0x0AC1, 0x0AC5) (Node Leaf (0x0AC7, 0x0AC8) Leaf))
            (0x0ACD, 0x0ACD)
            (Node (Node Leaf (0x0AE2, 0x0AE3) Leaf) (0x0AFA, 0x0AFF) Leaf))
           (0x0B01, 0x0B01)
           (Node
            (Node (Node Leaf (0x0B3C, 0x0B3C) Leaf) (0x0B3F, 0x0B3F) Leaf)
            (0x0B41, 0x0B44)
            (Node (Node Leaf (0x0B4D, 0x0B4D) Leaf) (0x0B55, 0x0B56) Leaf))))
         (0x0B62, 0x0B63)
         (Node
          (Node
           (Node
            (Node (Node Leaf (0x0B82, 0x0B82) Leaf) (0x0BC0, 0x0BC0) (Node Leaf (0x0BCD, 0x0BCD) Leaf))
            (0x0C00, 0x0C00)
            (Node (Node Leaf (0x0C04, 0x0C04) Leaf) (0x0C3C, 0x0C3C) Leaf))
           (0x0C3E, 0x0C40)
           (Node
            (Node (Node Leaf (0x0C46, 0x0C48) Leaf) (0x0C4A, 0x0C4D) Leaf)
            (0x0C55, 0x0C56)
            (Node (Node Leaf (0x0C62, 0x0C63) Leaf) (0x0C81, 0x0C81) Leaf)))
          (0x0CBC, 0x0CBC)
          (Node
           (Node
            (Node (Node Leaf (0x0CBF, 0x0CBF) Leaf) (0x0CC6, 0x0CC6) (Node Leaf (0x0CCC, 0x0CCD) Leaf))
            (0x0CE2, 0x0CE3)
            (Node (Node Leaf (0x0D00, 0x0D01) Leaf) (0x0D3B, 0x0D3C) Leaf))
           (0x0D41, 0x0D44)
           (Node
            (Node (Node Leaf (0x0D4D, 0x0D4D) Leaf) (0x0D62, 0x0D63) Leaf)
            (0x0D81, 0x0D81)
            (Node (Node Leaf (0x0DCA, 0x0DCA) Leaf) (0x0DD2, 0x0DD4) Leaf))))))
       (0x0DD6, 0x0DD6)
       (Node
        (Node
         (Node
          (Node
           (Node
            (Node (Node Leaf (0x0E31, 0x0E31) Leaf) (0x0E34, 0x0E3A) (Node Leaf (0x0E46, 0x0E4E) Leaf))
            (0x0EB1, 0x0EB1)
            (Node (Node Leaf (0x0EB4, 0x0EBC) Leaf) (0x0EC6, 0x0EC6) Leaf))
           (0x0EC8, 0x0ECD)
           (Node
            (Node (Node Leaf (0x0F18, 0x0F19) Leaf) (0x0F35, 0x0F35) (Node Leaf (0x0F37, 0x0F37) Leaf))
            (0x0F39, 0x0F39)
            (Node (Node Leaf (0x0F71, 0x0F7E) Leaf) (0x0F80, 0x0F84) Leaf)))
          (0x0F86, 0x0F87)
          (Node
           (Node
            (Node (Node Leaf (0x0F8D, 0x0F97) Leaf) (0x0F99, 0x0FBC) (Node Leaf (0x0FC6, 0x0FC6) Leaf))
            (0x102D, 0x1030)
            (Node (Node Leaf (0x1032, 0x1037) Leaf) (0x1039, 0x103A) Leaf))
           (0x103D, 0x103E)
           (Node
            (Node (Node Leaf (0x1058, 0x1059) Leaf) (0x105E, 0x1060) Leaf)
            (0x1071, 0x1074)
            (Node (Node Leaf (0x1082, 0x1082) Leaf) (0x1085, 0x1086) Leaf))))
         (0x108D, 0x108D)
         (Node
          (Node
           (Node
            (Node (Node Leaf (0x109D, 0x109D) Leaf) (0x10FC, 0x10FC) (Node Leaf (0x135D, 0x135F) Leaf))
            (0x1712, 0x1714)
            (Node (Node Leaf (0x1732, 0x1733) Leaf) (0x1752, 0x1753) Leaf))
           (0x1772, 0x1773)
           (Node
            (Node (Node Leaf (0x17B4, 0x17B5) Leaf) (0x17B7, 0x17BD) (Node Leaf (0x17C6, 0x17C6) Leaf))
            (0x17C9, 0x17D3)
            (Node (Node Leaf (0x17D7, 0x17D7) Leaf) (0x17DD, 0x17DD) Leaf)))
          (0x180B, 0x180F)
          (Node
           (Node
            (Node (Node Leaf (0x1843, 0x1843) Leaf) (0x1885, 0x1886) (Node Leaf (0x18A9, 0x18A9) Leaf))
            (0x1920, 0x1922)
            (Node (Node Leaf (0x1927, 0x1928) Leaf) (0x1932, 0x1932) Leaf))
           (0x1939, 0x193B)
           (Node
            (Node (Node Leaf (0x1A17, 0x1A18) Leaf) (0x1A1B, 0x1A1B) Leaf)
            (0x1A56, 0x1A56)
            (Node (Node Leaf (0x1A58, 0x1A5E) Leaf) (0x1A60, 0x1A60) Leaf)))))
        (0x1A62, 0x1A62)
        (Node
         (Node
          (Node
           (Node
            (Node (Node Leaf (0x1A65, 0x1A6C) Leaf) (0x1A73, 0x1A7C) (Node Leaf (0x1A7F, 0x1A7F) Leaf))
            (0x1AA7, 0x1AA7)
            (Node (Node Leaf (0x1AB0, 0x1ACE) Leaf) (0x1B00, 0x1B03) Leaf))
           (0x1B34, 0x1B34)
           (Node
            (Node (Node Leaf (0x1B36, 0x1B3A) Leaf) (0x1B3C, 0x1B3C) (Node Leaf (0x1B42, 0x1B42) Leaf))
            (0x1B6B, 0x1B73)
            (Node (Node Leaf (0x1B80, 0x1B81) Leaf) (0x1BA2, 0x1BA5) Leaf)))
          (0x1BA8, 0x1BA9)
          (Node
           (Node
            (Node (Node Leaf (0x1BAB, 0x1BAD) Leaf) (0x1BE6, 0x1BE6) (Node Leaf (0x1BE8, 0x1BE9) Leaf))
            (0x1BED, 0x1BED)
            (Node (Node Leaf (0x1BEF, 0x1BF1) Leaf) (0x1C2C, 0x1C33) Leaf))
           (0x1C36, 0x1C37)
           (Node
            (Node (Node Leaf (0x1C78, 0x1C7D) Leaf) (0x1CD0, 0x1CD2) Leaf)
            (0x1CD4, 0x1CE0)
            (Node (Node Leaf (0x1CE2, 0x1CE8) Leaf) (0x1CED, 0x1CED) Leaf))))
         (0x1CF4, 0x1CF4)
         (Node
          (Node
           (Node
            (Node (Node Leaf (0x1CF8, 0x1CF9) Leaf) (0x1D2C, 0x1D6A) (Node Leaf (0x1D78, 0x1D78) Leaf))
            (0x1D9B, 0x1DFF)
            (Node (Node Leaf (0x1FBD, 0x1FBD) Leaf) (0x1FBF, 0x1FC1) Leaf))
           (0x1FCD, 0x1FCF)
           (Node
            (Node (Node Leaf (0x1FDD, 0x1FDF) Leaf) (0x1FED, 0x1FEF) Leaf)
            (0x1FFD, 0x1FFE)
            (Node (Node Leaf (0x200B, 0x200F) Leaf) (0x2018, 0x2019) Leaf)))
          (0x2024, 0x2024)
          (Node
           (Node
            (Node (Node Leaf (0x2027, 0x2027) Leaf) (0x202A, 0x202E) (Node Leaf (0x2060, 0x2064) Leaf))
            (0x2066, 0x206F)
            (Node (Node Leaf (0x2071, 0x2071) Leaf) (0x207F, 0x207F) Leaf))
           (0x2090, 0x209C)
           (Node
            (Node (Node Leaf (0x20D0, 0x20F0) Leaf) (0x2C7C, 0x2C7D) Leaf)
            (0x2CEF, 0x2CF1)
            (Node (Node Leaf (0x2D6F, 0x2D6F) Leaf) (0x2D7F, 0x2D7F) Leaf)))))))
      (0x2DE0, 0x2DFF)
      (Node
       (Node
        (Node
         (Node
          (Node
           (Node
            (Node (Node Leaf (0x2E2F, 0x2E2F) Leaf) (0x3005, 0x3005) (Node Leaf (0x302A, 0x302D) Leaf))
            (0x3031, 0x3035)
            (Node (Node Leaf (0x303B, 0x303B) Leaf) (0x3099, 0x309E) Leaf))
           (0x30FC, 0x30FE)
           (Node
            (Node (Node Leaf (0xA015, 0xA015) Leaf) (0xA4F8, 0xA4FD) (Node Leaf (0xA60C, 0xA60C) Leaf))
            (0xA66F, 0xA672)
            (Node (Node Leaf (0xA674, 0xA67D) Leaf) (0xA67F, 0xA67F) Leaf)))
          (0xA69C, 0xA69F)
          (Node
           (Node
            (Node (Node Leaf (0xA6F0, 0xA6F1) Leaf) (0xA700, 0xA721) (Node Leaf (0xA770, 0xA770) Leaf))
            (0xA788, 0xA78A)
            (Node (Node Leaf (0xA7F2, 0xA7F4) Leaf) (0xA7F8, 0xA7F9) Leaf))
           (0xA802, 0xA802)
           (Node
            (Node (Node Leaf (0xA806, 0xA806) Leaf) (0xA80B, 0xA80B) Leaf)
            (0xA825, 0xA826)
            (Node (Node Leaf (0xA82C, 0xA82C) Leaf) (0xA8C4, 0xA8C5) Leaf))))
         (0xA8E0, 0xA8F1)
         (Node
          (Node
           (Node
            (Node (Node Leaf (0xA8FF, 0xA8FF) Leaf) (0xA926, 0xA92D) (Node Leaf (0xA947, 0xA951) Leaf))
            (0xA980, 0xA982)
            (Node (Node Leaf (0xA9B3, 0xA9B3) Leaf) (0xA9B6, 0xA9B9) Leaf))
           (0xA9BC, 0xA9BD)
           (Node
            (Node (Node Leaf (0xA9CF, 0xA9CF) Leaf) (0xA9E5, 0xA9E6) (Node Leaf (0xAA29, 0xAA2E) Leaf))
            (0xAA31, 0xAA32)
            (Node (Node Leaf (0xAA35, 0xAA36) Leaf) (0xAA43, 0xAA43) Leaf)))
          (0xAA4C, 0xAA4C)
          (Node
           (Node
            (Node (Node Leaf (0xAA70, 0xAA70) Leaf) (0xAA7C, 0xAA7C) (Node Leaf (0xAAB0, 0xAAB0) Leaf))
            (0xAAB2, 0xAAB4)
            (Node (Node Leaf (0xAAB7, 0xAAB8) Leaf) (0xAABE, 0xAABF) Leaf))
           (0xAAC1, 0xAAC1)
           (Node
            (Node (Node Leaf (0xAADD, 0xAADD) Leaf) (0xAAEC, 0xAAED) Leaf)
            (0xAAF3, 0xAAF4)
            (Node (Node Leaf (0xAAF6, 0xAAF6) Leaf) (0xAB5B, 0xAB5F) Leaf)))))
        (0xAB69, 0xAB6B)
        (Node
         (Node
          (Node
           (Node
            (Node (Node Leaf (0xABE5, 0xABE5) Leaf) (0xABE8, 0xABE8) (Node Leaf (0xABED, 0xABED) Leaf))
            (0xFB1E, 0xFB1E)
            (Node (Node Leaf (0xFBB2, 0xFBC2) Leaf) (0xFE00, 0xFE0F) Leaf))
           (0xFE13, 0xFE13)
           (Node
            (Node (Node Leaf (0xFE20, 0xFE2F) Leaf) (0xFE52, 0xFE52) (Node Leaf (0xFE55, 0xFE55) Leaf))
            (0xFEFF, 0xFEFF)
            (Node (Node Leaf (0xFF07, 0xFF07) Leaf) (0xFF0E, 0xFF0E) Leaf)))
          (0xFF1A, 0xFF1A)
          (Node
           (Node
            (Node (Node Leaf (0xFF3E, 0xFF3E) Leaf) (0xFF40, 0xFF40) (Node Leaf (0xFF70, 0xFF70) Leaf))
            (0xFF9E, 0xFF9F)
            (Node (Node Leaf (0xFFE3, 0xFFE3) Leaf) (0xFFF9, 0xFFFB) Leaf))
           (0x101FD, 0x101FD)
           (Node
            (Node (Node Leaf (0x102E0, 0x102E0) Leaf) (0x10376, 0x1037A) Leaf)
            (0x10780, 0x10785)
            (Node (Node Leaf (0x10787, 0x107B0) Leaf) (0x107B2, 0x107BA) Leaf))))
         (0x10A01, 0x10A03)
         (Node
          (Node
           (Node
            (Node (Node Leaf (0x10A05, 0x10A06) Leaf) (0x10A0C, 0x10A0F) (Node Leaf (0x10A38, 0x10A3A) Leaf))
            (0x10A3F, 0x10A3F)
            (Node (Node Leaf (0x10AE5, 0x10AE6) Leaf) (0x10D24, 0x10D27) Leaf))
           (0x10EAB, 0x10EAC)
           (Node
            (Node (Node Leaf (0x10F46, 0x10F50) Leaf) (0x10F82, 0x10F85) Leaf)
            (0x11001, 0x11001)
            (Node (Node Leaf (0x11038, 0x11046) Leaf) (0x11070, 0x11070) Leaf)))
          (0x11073, 0x11074)
          (Node
           (Node
            (Node (Node Leaf (0x1107F, 0x11081) Leaf) (0x110B3, 0x110B6) (Node Leaf (0x110B9, 0x110BA) Leaf))
            (0x110BD, 0x110BD)
            (Node (Node Leaf (0x110C2, 0x110C2) Leaf) (0x110CD, 0x110CD) Leaf))
           (0x11100, 0x11102)
           (Node
            (Node (Node Leaf (0x11127, 0x1112B) Leaf) (0x1112D, 0x11134) Leaf)
            (0x11173, 0x11173)
            (Node (Node Leaf (0x11180, 0x11181) Leaf) (0x111B6, 0x111BE) Leaf))))))
       (0x111C9, 0x111CC)
       (Node
        (Node
         (Node
          (Node
           (Node
            (Node (Node Leaf (0x111CF, 0x111CF) Leaf) (0x1122F, 0x11231) (Node Leaf (0x11234, 0x11234) Leaf))
            (0x11236, 0x11237)
            (Node (Node Leaf (0x1123E, 0x1123E) Leaf) (0x112DF, 0x112DF) Leaf))
           (0x112E3, 0x112EA)
           (Node
            (Node (Node Leaf (0x11300, 0x11301) Leaf) (0x1133B, 0x1133C) (Node Leaf (0x11340, 0x11340) Leaf))
            (0x11366, 0x1136C)
            (Node (Node Leaf (0x11370, 0x11374) Leaf) (0x11438, 0x1143F) Leaf)))
          (0x11442, 0x11444)
          (Node
           (Node
            (Node (Node Leaf (0x11446, 0x11446) Leaf) (0x1145E, 0x1145E) (Node Leaf (0x114B3, 0x114B8) Leaf))
            (0x114BA, 0x114BA)
            (Node (Node Leaf (0x114BF, 0x114C0) Leaf) (0x114C2, 0x114C3) Leaf))
           (0x115B2, 0x115B5)
           (Node
            (Node (Node Leaf (0x115BC, 0x115BD) Leaf) (0x115BF, 0x115C0) Leaf)
            (0x115DC, 0x115DD)
            (Node (Node Leaf (0x11633, 0x1163A) Leaf) (0x1163D, 0x1163D) Leaf))))
         (0x1163F, 0x11640)
         (Node
          (Node
           (Node
            (Node (Node Leaf (0x116AB, 0x116AB) Leaf) (0x116AD, 0x116AD) (Node Leaf (0x116B0, 0x116B5) Leaf))
            (0x116B7, 0x116B7)
            (Node (Node Leaf (0x1171D, 0x1171F) Leaf) (0x11722, 0x11725) Leaf))
           (0x11727, 0x1172B)
           (Node
            (Node (Node Leaf (0x1182F, 0x11837) Leaf) (0x11839, 0x1183A) (Node Leaf (0x1193B, 0x1193C) Leaf))
            (0x1193E, 0x1193E)
            (Node (Node Leaf (0x11943, 0x11943) Leaf) (0x119D4, 0x119D7) Leaf)))
          (0x119DA, 0x119DB)
          (Node
           (Node
            (Node (Node Leaf (0x119E0, 0x119E0) Leaf) (0x11A01, 0x11A0A) (Node Leaf (0x11A33, 0x11A38) Leaf))
            (0x11A3B, 0x11A3E)
            (Node (Node Leaf (0x11A47, 0x11A47) Leaf) (0x11A51, 0x11A56) Leaf))
           (0x11A59, 0x11A5B)
           (Node
            (Node (Node Leaf (0x11A8A, 0x11A96) Leaf) (0x11A98, 0x11A99) Leaf)
            (0x11C30, 0x11C36)
            (Node (Node Leaf (0x11C38, 0x11C3D) Leaf) (0x11C3F, 0x11C3F) Leaf)))))
        (0x11C92, 0x11CA7)
        (Node
         (Node
          (Node
           (Node
            (Node (Node Leaf (0x11CAA, 0x11CB0) Leaf) (0x11CB2, 0x11CB3) (Node Leaf (0x11CB5, 0x11CB6) Leaf))
            (0x11D31, 0x11D36)
            (Node (Node Leaf (0x11D3A, 0x11D3A) Leaf) (0x11D3C, 0x11D3D) Leaf))
           (0x11D3F, 0x11D45)
           (Node
            (Node (Node Leaf (0x11D47, 0x11D47) Leaf) (0x11D90, 0x11D91) (Node Leaf (0x11D95, 0x11D95) Leaf))
            (0x11D97, 0x11D97)
            (Node (Node Leaf (0x11EF3, 0x11EF4) Leaf) (0x13430, 0x13438) Leaf)))
          (0x16AF0, 0x16AF4)
          (Node
           (Node
            (Node (Node Leaf (0x16B30, 0x16B36) Leaf) (0x16B40, 0x16B43) (Node Leaf (0x16F4F, 0x16F4F) Leaf))
            (0x16F8F, 0x16F9F)
            (Node (Node Leaf (0x16FE0, 0x16FE1) Leaf) (0x16FE3, 0x16FE4) Leaf))
           (0x1AFF0, 0x1AFF3)
           (Node
            (Node (Node Leaf (0x1AFF5, 0x1AFFB) Leaf) (0x1AFFD, 0x1AFFE) Leaf)
            (0x1BC9D, 0x1BC9E)
            (Node (Node Leaf (0x1BCA0, 0x1BCA3) Leaf) (0x1CF00, 0x1CF2D) Leaf))))
         (0x1CF30, 0x1CF46)
         (Node
          (Node
           (Node
            (Node (Node Leaf (0x1D167, 0x1D169) Leaf) (0x1D173, 0x1D182) (Node Leaf (0x1D185, 0x1D18B) Leaf))
            (0x1D1AA, 0x1D1AD)
            (Node (Node Leaf (0x1D242, 0x1D244) Leaf) (0x1DA00, 0x1DA36) Leaf))
           (0x1DA3B, 0x1DA6C)
           (Node
            (Node (Node Leaf (0x1DA75, 0x1DA75) Leaf) (0x1DA84, 0x1DA84) Leaf)
            (0x1DA9B, 0x1DA9F)
            (Node (Node Leaf (0x1DAA1, 0x1DAAF) Leaf) (0x1E000, 0x1E006) Leaf)))
          (0x1E008, 0x1E018)
          (Node
           (Node
            (Node (Node Leaf (0x1E01B, 0x1E021) Leaf) (0x1E023, 0x1E024) (Node Leaf (0x1E026, 0x1E02A) Leaf))
            (0x1E130, 0x1E13D)
            (Node (Node Leaf (0x1E2AE, 0x1E2AE) Leaf) (0x1E2EC, 0x1E2EF) Leaf))
           (0x1E8D0, 0x1E8D6)
           (Node
            (Node (Node Leaf (0x1E944, 0x1E94B) Leaf) (0x1F3FB, 0x1F3FF) Leaf)
            (0xE0001, 0xE0001)
            (Node (Node Leaf (0xE0020, 0xE007F) Leaf) (0xE0100, 0xE01EF) Leaf)))))))"

text \<open>The code points with the property Cased that are not Case_Ignorable, as ranges.
  The property is only asked of a code point that is not Case_Ignorable.\<close>

definition casedRanges :: "(nat \<times> nat) search_tree" where
  "casedRanges =
     Node
      (Node
       (Node
        (Node
         (Node
          (Node
           (Node (Node Leaf (0x0041, 0x005A) Leaf) (0x0061, 0x007A) Leaf)
           (0x00AA, 0x00AA)
           (Node Leaf (0x00B5, 0x00B5) Leaf))
          (0x00BA, 0x00BA)
          (Node
           (Node (Node Leaf (0x00C0, 0x00D6) Leaf) (0x00D8, 0x00F6) Leaf)
           (0x00F8, 0x01BA)
           (Node Leaf (0x01BC, 0x01BF) Leaf)))
         (0x01C4, 0x0293)
         (Node
          (Node
           (Node (Node Leaf (0x0295, 0x02AF) Leaf) (0x0370, 0x0373) Leaf)
           (0x0376, 0x0377)
           (Node Leaf (0x037B, 0x037D) Leaf))
          (0x037F, 0x037F)
          (Node (Node Leaf (0x0386, 0x0386) Leaf) (0x0388, 0x038A) (Node Leaf (0x038C, 0x038C) Leaf))))
        (0x038E, 0x03A1)
        (Node
         (Node
          (Node
           (Node (Node Leaf (0x03A3, 0x03F5) Leaf) (0x03F7, 0x0481) Leaf)
           (0x048A, 0x052F)
           (Node Leaf (0x0531, 0x0556) Leaf))
          (0x0560, 0x0588)
          (Node
           (Node (Node Leaf (0x10A0, 0x10C5) Leaf) (0x10C7, 0x10C7) Leaf)
           (0x10CD, 0x10CD)
           (Node Leaf (0x10D0, 0x10FA) Leaf)))
         (0x10FD, 0x10FF)
         (Node
          (Node
           (Node (Node Leaf (0x13A0, 0x13F5) Leaf) (0x13F8, 0x13FD) Leaf)
           (0x1C80, 0x1C88)
           (Node Leaf (0x1C90, 0x1CBA) Leaf))
          (0x1CBD, 0x1CBF)
          (Node (Node Leaf (0x1D00, 0x1D2B) Leaf) (0x1D6B, 0x1D77) (Node Leaf (0x1D79, 0x1D9A) Leaf)))))
       (0x1E00, 0x1F15)
       (Node
        (Node
         (Node
          (Node
           (Node (Node Leaf (0x1F18, 0x1F1D) Leaf) (0x1F20, 0x1F45) Leaf)
           (0x1F48, 0x1F4D)
           (Node Leaf (0x1F50, 0x1F57) Leaf))
          (0x1F59, 0x1F59)
          (Node
           (Node (Node Leaf (0x1F5B, 0x1F5B) Leaf) (0x1F5D, 0x1F5D) Leaf)
           (0x1F5F, 0x1F7D)
           (Node Leaf (0x1F80, 0x1FB4) Leaf)))
         (0x1FB6, 0x1FBC)
         (Node
          (Node
           (Node (Node Leaf (0x1FBE, 0x1FBE) Leaf) (0x1FC2, 0x1FC4) Leaf)
           (0x1FC6, 0x1FCC)
           (Node Leaf (0x1FD0, 0x1FD3) Leaf))
          (0x1FD6, 0x1FDB)
          (Node (Node Leaf (0x1FE0, 0x1FEC) Leaf) (0x1FF2, 0x1FF4) (Node Leaf (0x1FF6, 0x1FFC) Leaf))))
        (0x2102, 0x2102)
        (Node
         (Node
          (Node
           (Node (Node Leaf (0x2107, 0x2107) Leaf) (0x210A, 0x2113) Leaf)
           (0x2115, 0x2115)
           (Node Leaf (0x2119, 0x211D) Leaf))
          (0x2124, 0x2124)
          (Node (Node Leaf (0x2126, 0x2126) Leaf) (0x2128, 0x2128) (Node Leaf (0x212A, 0x212D) Leaf)))
         (0x212F, 0x2134)
         (Node
          (Node
           (Node (Node Leaf (0x2139, 0x2139) Leaf) (0x213C, 0x213F) Leaf)
           (0x2145, 0x2149)
           (Node Leaf (0x214E, 0x214E) Leaf))
          (0x2160, 0x217F)
          (Node (Node Leaf (0x2183, 0x2184) Leaf) (0x24B6, 0x24E9) (Node Leaf (0x2C00, 0x2C7B) Leaf))))))
      (0x2C7E, 0x2CE4)
      (Node
       (Node
        (Node
         (Node
          (Node
           (Node (Node Leaf (0x2CEB, 0x2CEE) Leaf) (0x2CF2, 0x2CF3) Leaf)
           (0x2D00, 0x2D25)
           (Node Leaf (0x2D27, 0x2D27) Leaf))
          (0x2D2D, 0x2D2D)
          (Node
           (Node (Node Leaf (0xA640, 0xA66D) Leaf) (0xA680, 0xA69B) Leaf)
           (0xA722, 0xA76F)
           (Node Leaf (0xA771, 0xA787) Leaf)))
         (0xA78B, 0xA78E)
         (Node
          (Node
           (Node (Node Leaf (0xA790, 0xA7CA) Leaf) (0xA7D0, 0xA7D1) Leaf)
           (0xA7D3, 0xA7D3)
           (Node Leaf (0xA7D5, 0xA7D9) Leaf))
          (0xA7F5, 0xA7F6)
          (Node (Node Leaf (0xA7FA, 0xA7FA) Leaf) (0xAB30, 0xAB5A) (Node Leaf (0xAB60, 0xAB68) Leaf))))
        (0xAB70, 0xABBF)
        (Node
         (Node
          (Node
           (Node (Node Leaf (0xFB00, 0xFB06) Leaf) (0xFB13, 0xFB17) Leaf)
           (0xFF21, 0xFF3A)
           (Node Leaf (0xFF41, 0xFF5A) Leaf))
          (0x10400, 0x1044F)
          (Node
           (Node (Node Leaf (0x104B0, 0x104D3) Leaf) (0x104D8, 0x104FB) Leaf)
           (0x10570, 0x1057A)
           (Node Leaf (0x1057C, 0x1058A) Leaf)))
         (0x1058C, 0x10592)
         (Node
          (Node
           (Node (Node Leaf (0x10594, 0x10595) Leaf) (0x10597, 0x105A1) Leaf)
           (0x105A3, 0x105B1)
           (Node Leaf (0x105B3, 0x105B9) Leaf))
          (0x105BB, 0x105BC)
          (Node (Node Leaf (0x10C80, 0x10CB2) Leaf) (0x10CC0, 0x10CF2) (Node Leaf (0x118A0, 0x118DF) Leaf)))))
       (0x16E40, 0x16E7F)
       (Node
        (Node
         (Node
          (Node
           (Node (Node Leaf (0x1D400, 0x1D454) Leaf) (0x1D456, 0x1D49C) Leaf)
           (0x1D49E, 0x1D49F)
           (Node Leaf (0x1D4A2, 0x1D4A2) Leaf))
          (0x1D4A5, 0x1D4A6)
          (Node
           (Node (Node Leaf (0x1D4A9, 0x1D4AC) Leaf) (0x1D4AE, 0x1D4B9) Leaf)
           (0x1D4BB, 0x1D4BB)
           (Node Leaf (0x1D4BD, 0x1D4C3) Leaf)))
         (0x1D4C5, 0x1D505)
         (Node
          (Node
           (Node (Node Leaf (0x1D507, 0x1D50A) Leaf) (0x1D50D, 0x1D514) Leaf)
           (0x1D516, 0x1D51C)
           (Node Leaf (0x1D51E, 0x1D539) Leaf))
          (0x1D53B, 0x1D53E)
          (Node (Node Leaf (0x1D540, 0x1D544) Leaf) (0x1D546, 0x1D546) (Node Leaf (0x1D54A, 0x1D550) Leaf))))
        (0x1D552, 0x1D6A5)
        (Node
         (Node
          (Node
           (Node (Node Leaf (0x1D6A8, 0x1D6C0) Leaf) (0x1D6C2, 0x1D6DA) Leaf)
           (0x1D6DC, 0x1D6FA)
           (Node Leaf (0x1D6FC, 0x1D714) Leaf))
          (0x1D716, 0x1D734)
          (Node (Node Leaf (0x1D736, 0x1D74E) Leaf) (0x1D750, 0x1D76E) (Node Leaf (0x1D770, 0x1D788) Leaf)))
         (0x1D78A, 0x1D7A8)
         (Node
          (Node
           (Node (Node Leaf (0x1D7AA, 0x1D7C2) Leaf) (0x1D7C4, 0x1D7CB) Leaf)
           (0x1DF00, 0x1DF09)
           (Node Leaf (0x1DF0B, 0x1DF1E) Leaf))
          (0x1E900, 0x1E943)
          (Node (Node Leaf (0x1F130, 0x1F149) Leaf) (0x1F150, 0x1F169) (Node Leaf (0x1F170, 0x1F189) Leaf))))))"

definition Case_Ignorable :: "nat \<Rightarrow> bool" where
  "Case_Ignorable c = inRanges caseIgnorableRanges c"

definition Cased :: "nat \<Rightarrow> bool" where
  "Cased c = inRanges casedRanges c"

text \<open>
  The one mapping of SpecialCasing.txt with a condition that depends on no language:
  U+03A3 goes to U+03C2 in the context Final_Sigma, which is: a cased letter stands
  before it, and none after it, where case-ignorable code points in between are skipped.
  \<open>followedByCasedLetter\<close> walks away from the sigma as the engines' library does
  (ICU, \<^verbatim>\<open>isFollowedByCasedLetter\<close>): it skips the case-ignorable code points and
  answers by the first other one.
\<close>

fun followedByCasedLetter :: "nat list \<Rightarrow> bool" where
  "followedByCasedLetter [] = False"
| "followedByCasedLetter (c # cs) =
     (if Case_Ignorable c then followedByCasedLetter cs else Cased c)"

definition Final_Sigma :: "nat list \<Rightarrow> nat list \<Rightarrow> bool" where
  "Final_Sigma preceding following \<longleftrightarrow>
     (if followedByCasedLetter following then False
      else followedByCasedLetter (rev preceding))"

definition lowercaseOf :: "nat list \<Rightarrow> nat \<Rightarrow> nat list \<Rightarrow> nat list" where
  "lowercaseOf preceding c following =
     (if c = 0x03A3
      then (if Final_Sigma preceding following then [0x03C2] else Lowercase_Mapping c)
      else Lowercase_Mapping c)"

text \<open>toLowercase of the Unicode Standard: every code point is replaced by its
  lowercase mapping in its context.\<close>

fun toLowercase :: "nat list \<Rightarrow> nat list \<Rightarrow> nat list" where
  "toLowercase preceding [] = []"
| "toLowercase preceding (c # following) =
     lowercaseOf preceding c following @ toLowercase (preceding @ [c]) following"

definition toLowerCase :: "jsstring \<Rightarrow> jsstring" where
  "toLowerCase s = CodePointsToString (toLowercase [] (StringToCodePoints s))"

text \<open>Checks on the rows of a table, for the proofs.\<close>

fun table_all :: "('r \<Rightarrow> bool) \<Rightarrow> 'r search_tree \<Rightarrow> bool" where
  "table_all P Leaf = True"
| "table_all P (Node l row r) = (if P row then (if table_all P l then table_all P r else False) else False)"

definition isCodePoint :: "nat \<Rightarrow> bool" where
  "isCodePoint c \<longleftrightarrow> c < 0x110000"

definition isASCIICapital :: "nat \<Rightarrow> bool" where
  "isASCIICapital c \<longleftrightarrow> 0x41 \<le> c \<and> c \<le> 0x5A"

definition rowKeepsLowercase :: "nat \<times> nat \<times> nat \<times> nat \<Rightarrow> bool" where
  "rowKeepsLowercase row =
     (case row of (lo, hi, step, target) \<Rightarrow> 0x5A < target \<and> target + (hi - lo) < 0x110000)"

definition lowercaseCodePoint :: "nat \<Rightarrow> bool" where
  "lowercaseCodePoint c \<longleftrightarrow> isCodePoint c \<and> \<not> isASCIICapital c"

text \<open>The lowercase mapping of a code unit that is a code point by itself, as a
  string.\<close>

definition lowercaseOfCodeUnit :: "code_unit \<Rightarrow> jsstring" where
  "lowercaseOfCodeUnit c = CodePointsToString (Lowercase_Mapping (unat c))"

subsection \<open>The replacement \<^verbatim>\<open>token.replace(/Bearer\s+/i, "")\<close>\<close>

text \<open>
  \<open>matchLiteral p s\<close> matches the characters of the pattern \<open>p\<close> at the start of \<open>s\<close>,
  ignoring case, and returns the input left after them.
\<close>

fun matchLiteral :: "jsstring \<Rightarrow> jsstring \<Rightarrow> jsstring option" where
  "matchLiteral [] s = Some s"
| "matchLiteral (p # ps) [] = None"
| "matchLiteral (p # ps) (c # cs) =
     (if Canonicalize c = Canonicalize p then matchLiteral ps cs else None)"

text \<open>
  \<^verbatim>\<open>/Bearer\s+/i\<close> at the start of \<open>s\<close>: the six letters, then the longest run of
  white space, which must not be empty. Nothing follows \<^verbatim>\<open>\s+\<close> in the pattern, so the
  greedy run is never given back. The result is the input left after the match.
\<close>

definition matchBearer :: "jsstring \<Rightarrow> jsstring option" where
  "matchBearer s =
     (case matchLiteral (utf16 ''Bearer'') s of
        None \<Rightarrow> None
      | Some r \<Rightarrow>
          (if takeWhile isWhiteSpace r = [] then None
           else Some (dropWhile isWhiteSpace r)))"

text \<open>
  \<^verbatim>\<open>replace\<close> with a regular expression without the flag \<^verbatim>\<open>g\<close>: the match is tried
  at index 0, 1, 2, ... and the first index where it succeeds is the only one replaced,
  here by the empty string. Without a match the string is returned as it is.
\<close>

fun replaceBearer :: "jsstring \<Rightarrow> jsstring" where
  "replaceBearer [] = []"
| "replaceBearer (c # cs) =
     (case matchBearer (c # cs) of
        Some r \<Rightarrow> r
      | None \<Rightarrow> c # replaceBearer cs)"

text \<open>
  The token the transform receives is the value of the \<^verbatim>\<open>authorization\<close> header: a
  string, or \<^verbatim>\<open>undefined\<close> when the request has none. Calling \<^verbatim>\<open>replace\<close> on
  \<^verbatim>\<open>undefined\<close> throws a TypeError.
\<close>

datatype js_value = JSUndefined | JSString jsstring

datatype js_error = TypeError

text \<open>
  The fifth argument of \<^verbatim>\<open>BearerToken\<close> (Decorators.ts, lines 120 to 122):
  \<^verbatim>\<open>token => { return token.replace(/Bearer\s+/i, ""); }\<close>
\<close>

definition BearerToken_valueTransform :: "js_value \<Rightarrow> js_error + js_value" where
  "BearerToken_valueTransform token =
     (case token of
        JSUndefined \<Rightarrow> Inl TypeError
      | JSString s \<Rightarrow> Inr (JSString (replaceBearer s)))"

text \<open>The first argument of \<^verbatim>\<open>Header\<close> after the flags (line 105):
  \<^verbatim>\<open>(name: string) => name.toLowerCase()\<close>\<close>

definition Header_nameTransform :: "jsstring \<Rightarrow> jsstring" where
  "Header_nameTransform name = toLowerCase name"

text \<open>
  The claim's words, spelled out on indices: "Bearer", in any case, stands at index \<open>i\<close>
  of \<open>s\<close> and a white space character follows it.
\<close>

definition bearerOccursAt :: "jsstring \<Rightarrow> nat \<Rightarrow> bool" where
  "bearerOccursAt s i \<longleftrightarrow>
     i + 6 < length s
     \<and> map Canonicalize (take 6 (drop i s)) = utf16 ''BEARER''
     \<and> isWhiteSpace (s ! (i + 6))"

section \<open>Requirement records\<close>

text \<open>
  The type declarations of the requirement records (Types.ts) and the metadata store
  (Utils.ts) are not part of Decorators.ts. The records below take their fields from
  the spec's data model, under the keys the object literals of Decorators.ts use. A key
  an object literal does not give is \<open>None\<close>.
\<close>

text \<open>
  Modelled from the spec: the verb of an endpoint, "one of
  GET/POST/PUT/PATCH/DELETE/OPTIONS/HEAD/TRACE/ALL"; Decorators.ts passes it as the
  string literal of that name.
\<close>

datatype http_verb =
  Verb_GET | Verb_POST | Verb_PUT | Verb_PATCH | Verb_DELETE
  | Verb_OPTIONS | Verb_HEAD | Verb_TRACE | Verb_ALL

text \<open>A method is known by its class and its property key, a parameter by its method
  and its index.\<close>

type_synonym 't method_id = "'t \<times> jsstring"

type_synonym 't parameter_id = "'t \<times> jsstring \<times> nat"

text \<open>
  Modelled from the spec: the endpoint requirement, "HTTP verb [...], owning method
  identity".
\<close>

record 't endpoint_requirement =
  verb :: http_verb
  owner :: "'t method_id"

text \<open>An object literal whose values are strings, as the list of its keys and values.\<close>

type_synonym js_object = "(jsstring \<times> jsstring) list"

text \<open>The sixth argument of \<^verbatim>\<open>BearerToken\<close> is an object with the one key
  \<^verbatim>\<open>securitySchemes\<close>, an array of scheme objects.\<close>

record security_contribution =
  securitySchemes :: "js_object list"

text \<open>
  Modelled from the spec: the parameter requirement (\<^verbatim>\<open>PlatAPIInputParameterRequirement\<close>
  of Types.ts), "source location path, required flag, optional name transform, optional
  value transform, optional OpenAPI security-scheme contribution". Decorators.ts names
  the key \<^verbatim>\<open>required\<close> (lines 169 and 173).
\<close>

record parameter_requirement =
  source :: "jsstring list option"
  required :: "bool option"
  name_transform :: "(jsstring \<Rightarrow> jsstring) option"
  value_transform :: "(js_value \<Rightarrow> js_error + js_value) option"
  security :: "security_contribution option"

text \<open>
  Modelled from the spec: the method requirement, "request validator (handler +
  run-before-middleware flag), middleware list, response formatter + content type,
  documentation override fragment", under the keys of the object literals of
  Decorators.ts (lines 148 to 150, 178, 179, 185 and 196). The handlers \<open>'h\<close>, the
  formatters \<open>'f\<close> and the documentation objects \<open>'c\<close> are not looked into.
\<close>

record 'h request_validator =
  runBeforeMiddleware :: bool
  handler :: 'h

record ('h, 'f, 'c) method_requirement =
  requestValidator :: "'h request_validator option"
  middleware :: "'h list option"
  responseFormatter :: "'f option"
  responseContentType :: "jsstring option"
  docs :: "'c option"

definition no_parameter_requirement :: parameter_requirement where
  "no_parameter_requirement =
     \<lparr>source = None, required = None, name_transform = None, value_transform = None,
      security = None\<rparr>"

definition no_method_requirement :: "('h, 'f, 'c) method_requirement" where
  "no_method_requirement =
     \<lparr>requestValidator = None, middleware = None, responseFormatter = None,
      responseContentType = None, docs = None\<rparr>"

text \<open>
  Modelled from the spec: an entry of the metadata store, a requirement together with
  the method or parameter it was attached to.
\<close>

datatype ('t, 'h, 'f, 'c) requirement =
  Endpoint "'t endpoint_requirement"
  | Parameter "'t parameter_id" parameter_requirement
  | Method "'t method_id" "('h, 'f, 'c) method_requirement"

text \<open>
  Modelled from the spec: the state a decorator runs in, which is the metadata store
  ("the enclosing class's static metadata table") and, as \<open>heap\<close>, everything else of
  the program (the classes, their properties and descriptors).
\<close>

record ('o, 't, 'h, 'f, 'c) runtime =
  heap :: 'o
  metadata :: "('t, 'h, 'f, 'c) requirement list"

text \<open>
  A method decorator is called with the target, the property key and the descriptor;
  it returns a descriptor that replaces the method's, or \<^verbatim>\<open>undefined\<close> (\<open>None\<close>),
  which keeps it. A parameter decorator is called with the target, the property key
  and the parameter's index; what it returns is ignored.
\<close>

type_synonym ('o, 't, 'd, 'h, 'f, 'c) method_decorator =
  "'t \<Rightarrow> jsstring \<Rightarrow> 'd \<Rightarrow> ('o, 't, 'h, 'f, 'c) runtime
     \<Rightarrow> 'd option \<times> ('o, 't, 'h, 'f, 'c) runtime"

type_synonym ('o, 't, 'h, 'f, 'c) parameter_decorator =
  "'t \<Rightarrow> jsstring \<Rightarrow> nat \<Rightarrow> ('o, 't, 'h, 'f, 'c) runtime \<Rightarrow> ('o, 't, 'h, 'f, 'c) runtime"

section \<open>The registration utility\<close>

text \<open>
  Modelled from the spec: the write into the store, which Utils.ts does. "Applying a decorator to
  a method or parameter records a structured requirement object [...] via a shared
  registration utility", which "accumulates metadata against the owning class/method".
  The model keeps every requirement as it was attached, in the order of attachment;
  how the runtime later merges the requirements of one method is not modelled.
\<close>

definition attach ::
  "('t, 'h, 'f, 'c) requirement \<Rightarrow> ('o, 't, 'h, 'f, 'c) runtime \<Rightarrow> ('o, 't, 'h, 'f, 'c) runtime" where
  "attach r s = s\<lparr>metadata := metadata s @ [r]\<rparr>"

text \<open>
  Modelled from the spec: \<^verbatim>\<open>Utils.generateHTTPMethodDecorator(verb)\<close>. "HTTP-method
  decorators: no inputs; attach a verb requirement to the decorated method"; an endpoint
  requirement is the "HTTP verb" and the "owning method identity".
\<close>

definition generateHTTPMethodDecorator ::
  "http_verb \<Rightarrow> ('o, 't, 'd, 'h, 'f, 'c) method_decorator" where
  "generateHTTPMethodDecorator v =
     (\<lambda>target propertyKey descriptor s.
        (None, attach (Endpoint \<lparr>verb = v, owner = (target, propertyKey)\<rparr>) s))"

text \<open>
  Modelled from the spec: \<^verbatim>\<open>Utils.generateMethodDecorator(fragment)\<close>, which writes the
  fragment of a method requirement into the store, for the decorated method. Like every
  decorator of the spec it attaches metadata "without altering [the method's] runtime
  behavior directly": it returns no descriptor and leaves the heap alone.
\<close>

definition generateMethodDecorator ::
  "('h, 'f, 'c) method_requirement \<Rightarrow> ('o, 't, 'd, 'h, 'f, 'c) method_decorator" where
  "generateMethodDecorator fragment =
     (\<lambda>target propertyKey descriptor s.
        (None, attach (Method (target, propertyKey) fragment) s))"

text \<open>
  Modelled from the spec: \<^verbatim>\<open>Utils.generateParameterDecorator(requirement)\<close>, which
  writes the requirement into the store, for the decorated parameter.
\<close>

definition generateParameterDecorator ::
  "parameter_requirement \<Rightarrow> ('o, 't, 'h, 'f, 'c) parameter_decorator" where
  "generateParameterDecorator requirement =
     (\<lambda>target propertyKey parameterIndex s.
        attach (Parameter (target, propertyKey, parameterIndex) requirement) s)"

text \<open>
  Modelled from the spec: \<^verbatim>\<open>Utils.generateParameterSourceDecorator(path,
  isSingleValue?, isRequired?, nameTransform?, valueTransform?, securityContribution?)\<close>
  "produces a parameter decorator bound to that configuration". The decorator is
  modelled by the configuration it is bound to. The spec does not give the values of
  the two flags when a call leaves them out, so the model takes both, and only the
  decorators of Decorators.ts that pass both are modelled below.
\<close>

record source_decorator =
  path :: "jsstring list"
  isSingleValue :: bool
  isRequired :: bool
  nameTransform :: "(jsstring \<Rightarrow> jsstring) option"
  valueTransform :: "(js_value \<Rightarrow> js_error + js_value) option"
  securityContribution :: "security_contribution option"

definition generateParameterSourceDecorator ::
  "jsstring list \<Rightarrow> bool \<Rightarrow> bool \<Rightarrow> (jsstring \<Rightarrow> jsstring) option
     \<Rightarrow> (js_value \<Rightarrow> js_error + js_value) option \<Rightarrow> security_contribution option
     \<Rightarrow> source_decorator" where
  "generateParameterSourceDecorator p single req nt vt sc =
     \<lparr>path = p, isSingleValue = single, isRequired = req, nameTransform = nt,
      valueTransform = vt, securityContribution = sc\<rparr>"

text \<open>
  Modelled from the spec: the parameter requirement a source decorator produces when
  it is applied, with a source name (\<^verbatim>\<open>Header("X")\<close>) or without one. Its "source
  location path" is the configured path, followed for a single value by the source
  name ("request\<rightarrow>query\<rightarrow>name"), which the name transform has been applied to
  ("a parameter requirement whose source name has been lowercased").
\<close>

definition sourceName :: "source_decorator \<Rightarrow> jsstring \<Rightarrow> jsstring" where
  "sourceName d name = (case nameTransform d of None \<Rightarrow> name | Some f \<Rightarrow> f name)"

definition sourceRequirement :: "source_decorator \<Rightarrow> jsstring option \<Rightarrow> parameter_requirement" where
  "sourceRequirement d name =
     \<lparr>source =
        Some (case name of
                None \<Rightarrow> path d
              | Some n \<Rightarrow> (if isSingleValue d then path d @ [sourceName d n] else path d)),
      required = Some (isRequired d),
      name_transform = nameTransform d,
      value_transform = valueTransform d,
      security = securityContribution d\<rparr>"

definition applySourceDecorator ::
  "source_decorator \<Rightarrow> jsstring option \<Rightarrow> ('o, 't, 'h, 'f, 'c) parameter_decorator" where
  "applySourceDecorator d name = generateParameterDecorator (sourceRequirement d name)"

section \<open>The decorators of Decorators.ts\<close>

text \<open>
  Lines 11 to 51. \<^verbatim>\<open>ALL\<close> is written \<open>ALL'\<close>, since \<open>ALL\<close> is input syntax of the
  universal quantifier. Of the parameter source decorators, those whose call leaves out
  a flag (\<^verbatim>\<open>BodyPart\<close>, \<^verbatim>\<open>Cookie\<close>, \<^verbatim>\<open>Query\<close>, \<^verbatim>\<open>Path\<close>, the \<^verbatim>\<open>All...\<close> ones,
  \<^verbatim>\<open>Request\<close>, \<^verbatim>\<open>Response\<close>, \<^verbatim>\<open>Logger\<close>) are not modelled.
\<close>

definition POST :: "('o, 't, 'd, 'h, 'f, 'c) method_decorator" where
  "POST = generateHTTPMethodDecorator Verb_POST"

definition ALL' :: "('o, 't, 'd, 'h, 'f, 'c) method_decorator" where
  "ALL' = generateHTTPMethodDecorator Verb_ALL"

definition GET :: "('o, 't, 'd, 'h, 'f, 'c) method_decorator" where
  "GET = generateHTTPMethodDecorator Verb_GET"

definition PUT :: "('o, 't, 'd, 'h, 'f, 'c) method_decorator" where
  "PUT = generateHTTPMethodDecorator Verb_PUT"

definition PATCH :: "('o, 't, 'd, 'h, 'f, 'c) method_decorator" where
  "PATCH = generateHTTPMethodDecorator Verb_PATCH"

definition DELETE :: "('o, 't, 'd, 'h, 'f, 'c) method_decorator" where
  "DELETE = generateHTTPMethodDecorator Verb_DELETE"

definition OPTIONS :: "('o, 't, 'd, 'h, 'f, 'c) method_decorator" where
  "OPTIONS = generateHTTPMethodDecorator Verb_OPTIONS"

definition HEAD :: "('o, 't, 'd, 'h, 'f, 'c) method_decorator" where
  "HEAD = generateHTTPMethodDecorator Verb_HEAD"

definition TRACE :: "('o, 't, 'd, 'h, 'f, 'c) method_decorator" where
  "TRACE = generateHTTPMethodDecorator Verb_TRACE"

definition Param :: "parameter_requirement \<Rightarrow> ('o, 't, 'h, 'f, 'c) parameter_decorator" where
  "Param requirements = generateParameterDecorator requirements"

definition Body :: source_decorator where
  "Body =
     generateParameterSourceDecorator [utf16 ''request'', utf16 ''body''] False False
       None None None"

text \<open>Line 105.\<close>

definition Header :: source_decorator where
  "Header =
     generateParameterSourceDecorator [utf16 ''request'', utf16 ''headers''] True True
       (Some Header_nameTransform) None None"

text \<open>Lines 115 to 133; \<^verbatim>\<open>undefined\<close> for the name transform is \<open>None\<close>.\<close>

definition BearerToken :: source_decorator where
  "BearerToken =
     generateParameterSourceDecorator
       [utf16 ''request'', utf16 ''headers'', utf16 ''authorization'']
       False
       False
       None
       (Some BearerToken_valueTransform)
       (Some \<lparr>securitySchemes =
          [[(utf16 ''description'', utf16 ''JWT Bearer Token''),
            (utf16 ''type'', utf16 ''http''),
            (utf16 ''scheme'', utf16 ''bearer''),
            (utf16 ''bearerFormat'', utf16 ''JWT'')]]\<rparr>)"

text \<open>The default of \<^verbatim>\<open>runBeforeMiddleware\<close> is taken when the argument is left out
  (\<open>None\<close>).\<close>

definition ValidateRequest ::
  "'h \<Rightarrow> bool option \<Rightarrow> ('o, 't, 'd, 'h, 'f, 'c) method_decorator" where
  "ValidateRequest validator runBeforeMiddleware' =
     generateMethodDecorator
       (no_method_requirement
          \<lparr>requestValidator :=
             Some \<lparr>runBeforeMiddleware =
                      (case runBeforeMiddleware' of None \<Rightarrow> False | Some b \<Rightarrow> b),
                   handler = validator\<rparr>\<rparr>)"

definition Optional :: "('o, 't, 'h, 'f, 'c) parameter_decorator" where
  "Optional = generateParameterDecorator (no_parameter_requirement\<lparr>required := Some False\<rparr>)"

definition Required :: "('o, 't, 'h, 'f, 'c) parameter_decorator" where
  "Required = generateParameterDecorator (no_parameter_requirement\<lparr>required := Some True\<rparr>)"

definition FormatResponse ::
  "'f \<Rightarrow> jsstring option \<Rightarrow> ('o, 't, 'd, 'h, 'f, 'c) method_decorator" where
  "FormatResponse formatter contentType =
     generateMethodDecorator
       (no_method_requirement
          \<lparr>responseFormatter := Some formatter, responseContentType := contentType\<rparr>)"

text \<open>lodash's \<^verbatim>\<open>castArray\<close>: an array is returned as it is, any other value as the
  array of that one value. The argument of \<^verbatim>\<open>Use\<close> is one handler or an array of
  handlers.\<close>

datatype 'h middleware_argument = Single 'h | Array "'h list"

fun castArray :: "'h middleware_argument \<Rightarrow> 'h list" where
  "castArray (Single h) = [h]"
| "castArray (Array hs) = hs"

definition Use :: "'h middleware_argument \<Rightarrow> ('o, 't, 'd, 'h, 'f, 'c) method_decorator" where
  "Use middleware' =
     generateMethodDecorator (no_method_requirement\<lparr>middleware := Some (castArray middleware')\<rparr>)"

definition Docs :: "'c \<Rightarrow> ('o, 't, 'd, 'h, 'f, 'c) method_decorator" where
  "Docs openAPIDocs = generateMethodDecorator (no_method_requirement\<lparr>docs := Some openAPIDocs\<rparr>)"

text \<open>\<^verbatim>\<open>ErrorReturn\<close> takes no argument and returns a decorator with an empty body.\<close>

definition ErrorReturn :: "unit \<Rightarrow> ('o, 't, 'd, 'h, 'f, 'c) method_decorator" where
  "ErrorReturn u = (\<lambda>target propertyKey descriptor s. (None, s))"

definition Throws :: "unit \<Rightarrow> ('o, 't, 'd, 'h, 'f, 'c) method_decorator" where
  "Throws = ErrorReturn"

section \<open>Facts about the string functions\<close>

lemma length_Bearer: "length (utf16 ''Bearer'') = 6"
  by (simp add: utf16_def)

lemma Canonicalize_Bearer: "map Canonicalize (utf16 ''Bearer'') = utf16 ''BEARER''"
  by (simp add: utf16_def Canonicalize_def)

lemma matchLiteral_Some:
  "matchLiteral p s = Some r \<longleftrightarrow>
     length p \<le> length s \<and> map Canonicalize (take (length p) s) = map Canonicalize p
     \<and> r = drop (length p) s"
  by (induction p s rule: matchLiteral.induct) auto

lemma matchLiteral_Bearer:
  "matchLiteral (utf16 ''Bearer'') s =
     (if 6 \<le> length s \<and> map Canonicalize (take 6 s) = utf16 ''BEARER''
      then Some (drop 6 s) else None)"
proof (cases "matchLiteral (utf16 ''Bearer'') s")
  case None
  then show ?thesis
    using matchLiteral_Some [of "utf16 ''Bearer''" s "drop 6 s"]
    by (simp only: Canonicalize_Bearer length_Bearer) simp
next
  case (Some r)
  then show ?thesis
    using matchLiteral_Some [of "utf16 ''Bearer''" s r]
    by (simp only: Canonicalize_Bearer length_Bearer) simp
qed

lemma takeWhile_Nil_iff: "takeWhile P xs = [] \<longleftrightarrow> xs = [] \<or> \<not> P (hd xs)"
  by (cases xs) auto

text \<open>The match at index 0 succeeds exactly when "Bearer" and a white space stand there,
  and it takes the whole run of white space.\<close>

lemma matchBearer_eq:
  "matchBearer s =
     (if bearerOccursAt s 0 then Some (dropWhile isWhiteSpace (drop 6 s)) else None)"
proof -
  have "drop 6 s = [] \<or> \<not> isWhiteSpace (hd (drop 6 s)) \<longleftrightarrow>
        \<not> (6 < length s \<and> isWhiteSpace (s ! 6))"
    by (auto simp: hd_drop_conv_nth)
  then show ?thesis
    by (auto simp: matchBearer_def matchLiteral_Bearer bearerOccursAt_def takeWhile_Nil_iff)
qed

lemma bearerOccursAt_Cons: "bearerOccursAt (c # cs) (Suc i) = bearerOccursAt cs i"
  by (simp add: bearerOccursAt_def add.commute)

lemma replaceBearer_no_occurrence:
  "(\<And>i. \<not> bearerOccursAt s i) \<Longrightarrow> replaceBearer s = s"
proof (induction s)
  case Nil
  show ?case by simp
next
  case (Cons c cs)
  have "\<not> bearerOccursAt cs i" for i
    using Cons.prems [of "Suc i"] by (simp add: bearerOccursAt_Cons)
  then have "replaceBearer cs = cs"
    by (rule Cons.IH)
  moreover have "matchBearer (c # cs) = None"
    using Cons.prems [of 0] by (simp add: matchBearer_eq)
  ultimately show ?case by simp
qed

lemma replaceBearer_first_occurrence:
  "bearerOccursAt s i \<Longrightarrow> (\<And>j. j < i \<Longrightarrow> \<not> bearerOccursAt s j) \<Longrightarrow>
   replaceBearer s = take i s @ dropWhile isWhiteSpace (drop (i + 6) s)"
proof (induction s arbitrary: i)
  case Nil
  then show ?case by (simp add: bearerOccursAt_def)
next
  case (Cons c cs)
  show ?case
  proof (cases i)
    case 0
    with Cons.prems(1) show ?thesis
      by (simp add: matchBearer_eq)
  next
    case (Suc i')
    have here: "matchBearer (c # cs) = None"
      using Cons.prems(2) [of 0] Suc by (simp add: matchBearer_eq)
    have occ: "bearerOccursAt cs i'"
      using Cons.prems(1) Suc by (simp add: bearerOccursAt_Cons)
    have first: "\<not> bearerOccursAt cs j" if "j < i'" for j
      using Cons.prems(2) [of "Suc j"] that Suc by (simp add: bearerOccursAt_Cons)
    have rest: "replaceBearer cs = take i' cs @ dropWhile isWhiteSpace (drop (i' + 6) cs)"
      using occ first by (rule Cons.IH)
    have shift: "drop (Suc i' + 6) (c # cs) = drop (i' + 6) cs"
      by (simp only: add_Suc drop_Suc_Cons)
    show ?thesis
      unfolding Suc
      by (simp only: replaceBearer.simps here option.case rest take_Suc_Cons append_Cons shift)
  qed
qed

lemma unat_upper_plus:
  fixes c :: code_unit
  assumes "c \<le> 0x5A"
  shows "unat (c + 0x20) = unat c + 32"
proof -
  from assms have "unat c \<le> 90" by (simp add: word_le_nat_alt)
  then have "unat c + unat (0x20 :: code_unit) < 2 ^ LENGTH(16)" by simp
  then have "unat (c + 0x20) = unat c + unat (0x20 :: code_unit)"
    by (simp only: unat_add_lem [THEN iffD1])
  then show ?thesis by simp
qed

lemma toASCIILower_not_upper: "\<not> isASCIIUpper (toASCIILower c)"
  by (simp add: toASCIILower_def isASCIIUpper_def word_le_nat_alt unat_upper_plus)

lemma Canonicalize_toASCIILower: "Canonicalize (toASCIILower c) = Canonicalize c"
  by (auto simp: toASCIILower_def isASCIIUpper_def Canonicalize_def word_le_nat_alt
      unat_upper_plus)

lemma toASCIILower_ASCII: "isASCII c \<Longrightarrow> isASCII (toASCIILower c)"
  by (auto simp: toASCIILower_def isASCIIUpper_def isASCII_def word_le_nat_alt
      word_less_nat_alt unat_upper_plus)

subsection \<open>\<^verbatim>\<open>toLowerCase\<close>\<close>

text \<open>No lowercase mapping is a capital letter of ASCII, and every one is a code point.\<close>

lemma rows_keep: "table_all rowKeepsLowercase simpleLowercaseRows"
  by (simp add: simpleLowercaseRows_def rowKeepsLowercase_def)

lemma lowercaseIn_kept:
  "table_all rowKeepsLowercase t \<Longrightarrow>
   lowercaseIn t c = c \<or> (0x5A < lowercaseIn t c \<and> lowercaseIn t c < 0x110000)"
proof (induction t)
  case Leaf
  show ?case by simp
next
  case (Node l row r)
  obtain lo hi step target where row: "row = (lo, hi, step, target)"
    by (cases row) auto
  from Node.prems have keep: "rowKeepsLowercase row"
    and l: "table_all rowKeepsLowercase l" and r: "table_all rowKeepsLowercase r"
    by (simp_all split: if_splits)
  from keep have ok: "0x5A < target" "target + (hi - lo) < 0x110000"
    by (simp_all add: row rowKeepsLowercase_def)
  show ?case
    using Node.IH(1) [OF l] Node.IH(2) [OF r] ok
    by (auto simp: row)
qed

lemma lowercaseIn_ASCII:
  "c < 0x80 \<Longrightarrow>
   lowercaseIn simpleLowercaseRows c = (if 0x41 \<le> c \<and> c \<le> 0x5A then c + 0x20 else c)"
  by (simp add: simpleLowercaseRows_def)

lemma Lowercase_Mapping_lowercase:
  assumes "isCodePoint c"
  shows "list_all lowercaseCodePoint (Lowercase_Mapping c)"
proof (cases "c < 0x80")
  case True
  then show ?thesis
    by (simp add: Lowercase_Mapping_def lowercaseIn_ASCII lowercaseCodePoint_def
        isCodePoint_def isASCIICapital_def)
next
  case False
  with assms lowercaseIn_kept [OF rows_keep, of c] show ?thesis
    by (auto simp: Lowercase_Mapping_def lowercaseCodePoint_def isCodePoint_def
        isASCIICapital_def)
qed

lemma lowercaseOf_lowercase:
  assumes "isCodePoint c"
  shows "list_all lowercaseCodePoint (lowercaseOf p c f)"
proof (cases "c = 0x03A3 \<and> Final_Sigma p f")
  case True
  then show ?thesis
    by (simp add: lowercaseOf_def lowercaseCodePoint_def isCodePoint_def isASCIICapital_def)
next
  case False
  then have "lowercaseOf p c f = Lowercase_Mapping c"
    by (auto simp: lowercaseOf_def)
  with assms show ?thesis
    by (simp add: Lowercase_Mapping_lowercase)
qed

lemma toLowercase_lowercase:
  "list_all isCodePoint cps \<Longrightarrow> list_all lowercaseCodePoint (toLowercase p cps)"
  by (induction cps arbitrary: p) (simp_all add: lowercaseOf_lowercase)

lemma unat_code_unit: "unat (c :: code_unit) < 65536"
  using unsigned_less [of c, where ?'a = nat] by simp

lemma StringToCodePoints_code_points: "list_all isCodePoint (StringToCodePoints s)"
proof (induction s rule: StringToCodePoints.induct)
  case 1
  show ?case by simp
next
  case (2 c)
  show ?case using unat_code_unit [of c] by (simp add: isCodePoint_def)
next
  case (3 c d cs)
  have "unat c \<le> 0xDBFF" if "isLeadingSurrogate c"
    using that by (simp add: isLeadingSurrogate_def word_le_nat_alt)
  moreover have "unat d \<le> 0xDFFF" if "isTrailingSurrogate d"
    using that by (simp add: isTrailingSurrogate_def word_le_nat_alt)
  ultimately show ?case
    using 3 unat_code_unit [of c] by (auto simp: isCodePoint_def)
qed

lemma unat_of_nat_code_unit: "n < 65536 \<Longrightarrow> unat (of_nat n :: code_unit) = n"
  by (simp add: unat_of_nat)

lemma UTF16EncodeCodePoint_lowercase:
  assumes "lowercaseCodePoint c"
  shows "list_all (\<lambda>u. \<not> isASCIIUpper u) (UTF16EncodeCodePoint c)"
proof (cases "c \<le> 0xFFFF")
  case True
  then have "unat (of_nat c :: code_unit) = c"
    by (simp add: unat_of_nat_code_unit)
  with True assms show ?thesis
    by (simp add: UTF16EncodeCodePoint_def isASCIIUpper_def word_le_nat_alt
        lowercaseCodePoint_def isASCIICapital_def)
next
  case False
  from assms have "c < 0x110000"
    by (simp add: lowercaseCodePoint_def isCodePoint_def)
  then have "c - 0x10000 < 0x400 * 0x400"
    by simp
  then have "(c - 0x10000) div 0x400 < 0x400"
    by (simp only: div_less_iff_less_mult zero_less_numeral)
  then have hi: "(c - 0x10000) div 0x400 + 0xD800 < 65536"
    by simp
  have lo: "(c - 0x10000) mod 0x400 + 0xDC00 < 65536"
    by simp
  have "\<not> isASCIIUpper (of_nat ((c - 0x10000) div 0x400 + 0xD800))"
    unfolding isASCIIUpper_def word_le_nat_alt unat_of_nat_code_unit [OF hi] by simp
  moreover have "\<not> isASCIIUpper (of_nat ((c - 0x10000) mod 0x400 + 0xDC00))"
    unfolding isASCIIUpper_def word_le_nat_alt unat_of_nat_code_unit [OF lo] by simp
  ultimately show ?thesis
    using False by (simp only: UTF16EncodeCodePoint_def if_False list.pred_inject simp_thms)
qed

lemma CodePointsToString_lowercase:
  "list_all lowercaseCodePoint cps \<Longrightarrow>
   list_all (\<lambda>u. \<not> isASCIIUpper u) (CodePointsToString cps)"
  by (induction cps) (simp_all add: CodePointsToString_def UTF16EncodeCodePoint_lowercase)

lemma toLowerCase_no_capital: "list_all (\<lambda>u. \<not> isASCIIUpper u) (toLowerCase s)"
  unfolding toLowerCase_def
  by (intro CodePointsToString_lowercase toLowercase_lowercase StringToCodePoints_code_points)

text \<open>A name without a surrogate pair and without a capital sigma is lowered code unit
  by code unit.\<close>

lemma StringToCodePoints_no_pair:
  "list_all (\<lambda>c. \<not> isLeadingSurrogate c) s \<Longrightarrow> StringToCodePoints s = map unat s"
  by (induction s rule: StringToCodePoints.induct) simp_all

lemma toLowercase_no_sigma:
  "list_all (\<lambda>c. c \<noteq> 0x03A3) cps \<Longrightarrow>
   toLowercase p cps = concat (map Lowercase_Mapping cps)"
  by (induction cps arbitrary: p) (simp_all add: lowercaseOf_def)

lemma CodePointsToString_concat:
  "CodePointsToString (concat xss) = concat (map CodePointsToString xss)"
  by (induction xss) (simp_all add: CodePointsToString_def)

lemma unat_sigma: "unat (c :: code_unit) = 0x03A3 \<longleftrightarrow> c = 0x03A3"
  by (simp add: word_unat_eq_iff)

lemma toLowerCase_pointwise:
  assumes "list_all (\<lambda>c. \<not> isLeadingSurrogate c \<and> c \<noteq> 0x03A3) s"
  shows "toLowerCase s = concat (map lowercaseOfCodeUnit s)"
proof -
  from assms have a: "list_all (\<lambda>c. \<not> isLeadingSurrogate c) s"
    and b: "list_all (\<lambda>c. c \<noteq> 0x03A3) (map unat s)"
    by (simp_all add: list_all_iff unat_sigma)
  have c: "(\<lambda>x. CodePointsToString (Lowercase_Mapping (unat x))) = lowercaseOfCodeUnit"
    by (simp add: fun_eq_iff lowercaseOfCodeUnit_def)
  show ?thesis
    by (simp add: toLowerCase_def StringToCodePoints_no_pair [OF a] toLowercase_no_sigma [OF b]
        CodePointsToString_concat comp_def c)
qed

lemma lowercaseOfCodeUnit_ASCII:
  assumes "isASCII c"
  shows "lowercaseOfCodeUnit c = [toASCIILower c]"
proof -
  from assms have c: "unat c < 0x80"
    by (simp add: isASCII_def word_less_nat_alt)
  have up: "isASCIIUpper c \<longleftrightarrow> 0x41 \<le> unat c \<and> unat c \<le> 0x5A"
    by (simp add: isASCIIUpper_def word_le_nat_alt)
  from c show ?thesis
    by (simp add: lowercaseOfCodeUnit_def Lowercase_Mapping_def lowercaseIn_ASCII
        CodePointsToString_def UTF16EncodeCodePoint_def toASCIILower_def up)
qed

lemma ASCII_no_pair_no_sigma:
  "isASCII c \<Longrightarrow> \<not> isLeadingSurrogate c \<and> c \<noteq> 0x03A3"
  by (auto simp: isASCII_def isLeadingSurrogate_def word_less_nat_alt word_le_nat_alt)

lemma toLowerCase_ASCII_names:
  assumes "list_all isASCII s"
  shows "toLowerCase s = map toASCIILower s"
proof -
  from assms have "list_all (\<lambda>c. \<not> isLeadingSurrogate c \<and> c \<noteq> 0x03A3) s"
    by (simp add: list_all_iff ASCII_no_pair_no_sigma)
  then have "toLowerCase s = concat (map lowercaseOfCodeUnit s)"
    by (rule toLowerCase_pointwise)
  also from assms have "\<dots> = map toASCIILower s"
    by (induction s) (simp_all add: lowercaseOfCodeUnit_ASCII)
  finally show ?thesis .
qed

lemmas string_eval =
  utf16_def matchBearer_def Canonicalize_def isWhiteSpace_def isASCII_def
  isASCIIUpper_def toASCIILower_def bearerOccursAt_def

lemmas lower_eval =
  toLowerCase_def CodePointsToString_def UTF16EncodeCodePoint_def isLeadingSurrogate_def
  isTrailingSurrogate_def lowercaseOf_def Lowercase_Mapping_def simpleLowercaseRows_def
  Final_Sigma_def Case_Ignorable_def Cased_def caseIgnorableRanges_def casedRanges_def
  utf16_def

lemmas decorator_eval =
  generateHTTPMethodDecorator_def generateMethodDecorator_def generateParameterDecorator_def
  generateParameterSourceDecorator_def sourceRequirement_def sourceName_def
  applySourceDecorator_def no_method_requirement_def no_parameter_requirement_def

section \<open>The claims\<close>

text \<open>
  C1. For each of the nine HTTP verb decorators (POST, ALL, GET, PUT, PATCH, DELETE,
  OPTIONS, HEAD, TRACE), applying the decorator to a method attaches an endpoint
  requirement whose verb field equals that decorator's verb: the store grows by exactly
  that requirement, owned by the decorated method, and the descriptor is kept.
\<close>

theorem verb_decorators_attach_their_verb:
  "POST t k d s = (None, attach (Endpoint \<lparr>verb = Verb_POST, owner = (t, k)\<rparr>) s)
   \<and> ALL' t k d s = (None, attach (Endpoint \<lparr>verb = Verb_ALL, owner = (t, k)\<rparr>) s)
   \<and> GET t k d s = (None, attach (Endpoint \<lparr>verb = Verb_GET, owner = (t, k)\<rparr>) s)
   \<and> PUT t k d s = (None, attach (Endpoint \<lparr>verb = Verb_PUT, owner = (t, k)\<rparr>) s)
   \<and> PATCH t k d s = (None, attach (Endpoint \<lparr>verb = Verb_PATCH, owner = (t, k)\<rparr>) s)
   \<and> DELETE t k d s = (None, attach (Endpoint \<lparr>verb = Verb_DELETE, owner = (t, k)\<rparr>) s)
   \<and> OPTIONS t k d s = (None, attach (Endpoint \<lparr>verb = Verb_OPTIONS, owner = (t, k)\<rparr>) s)
   \<and> HEAD t k d s = (None, attach (Endpoint \<lparr>verb = Verb_HEAD, owner = (t, k)\<rparr>) s)
   \<and> TRACE t k d s = (None, attach (Endpoint \<lparr>verb = Verb_TRACE, owner = (t, k)\<rparr>) s)"
  by (simp add: POST_def ALL'_def GET_def PUT_def PATCH_def DELETE_def OPTIONS_def HEAD_def
      TRACE_def generateHTTPMethodDecorator_def)

text \<open>
  C2. The value transform attached by the BearerToken parameter decorator, applied to
  the string "Bearer abc123", returns "abc123".
\<close>

theorem BearerToken_transform_Bearer_abc123:
  "map_option (\<lambda>f. f (JSString (utf16 ''Bearer abc123''))) (valueTransform BearerToken)
     = Some (Inr (JSString (utf16 ''abc123'')))"
  by (simp add: BearerToken_def generateParameterSourceDecorator_def
      BearerToken_valueTransform_def string_eval)

text \<open>
  C3. The name transform attached by the Header parameter decorator maps every source
  name to its lowercase form, \<^verbatim>\<open>toLowerCase\<close> of the name. For every name the result has
  no capital letter of ASCII. A name without a surrogate pair and without a capital
  sigma is lowered code unit by code unit, each by its lowercase mapping; a name of ASCII
  code units becomes the string of the same length with A to Z replaced by a to z, equal
  to the name up to case. Names outside ASCII are lowered too: a Latin-1 capital, a
  Greek word with a final and with a medial sigma, the dotted capital I (which becomes two
  code units) and a surrogate pair. The requirement \<^verbatim>\<open>Header(name)\<close> attaches has the
  lowercase form as its source name; in particular \<^verbatim>\<open>Header("X")\<close> produces a
  parameter requirement whose source name is "x".
\<close>

theorem Header_lowercases_source_name:
  "nameTransform Header = Some Header_nameTransform
   \<and> Header_nameTransform name = toLowerCase name
   \<and> list_all (\<lambda>c. \<not> isASCIIUpper c) (Header_nameTransform name)
   \<and> (list_all (\<lambda>c. \<not> isLeadingSurrogate c \<and> c \<noteq> 0x03A3) name \<longrightarrow>
        Header_nameTransform name = concat (map lowercaseOfCodeUnit name))
   \<and> (list_all isASCII name \<longrightarrow>
        Header_nameTransform name = map toASCIILower name
        \<and> length (Header_nameTransform name) = length name
        \<and> map Canonicalize (Header_nameTransform name) = map Canonicalize name)
   \<and> source (sourceRequirement Header (Some name))
        = Some [utf16 ''request'', utf16 ''headers'', toLowerCase name]
   \<and> Header_nameTransform (utf16 ''X'') = utf16 ''x''
   \<and> Header_nameTransform (utf16 ''X-'' @ [0x00C9]) = utf16 ''x-'' @ [0x00E9]
   \<and> Header_nameTransform [0x039F, 0x0394, 0x039F, 0x03A3] = [0x03BF, 0x03B4, 0x03BF, 0x03C2]
   \<and> Header_nameTransform [0x039F, 0x03A3, 0x039F] = [0x03BF, 0x03C3, 0x03BF]
   \<and> Header_nameTransform [0x0130] = [0x0069, 0x0307]
   \<and> Header_nameTransform [0xD801, 0xDC00] = [0xD801, 0xDC28]
   \<and> applySourceDecorator Header (Some (utf16 ''X'')) t k i s
        = attach (Parameter (t, k, i)
            \<lparr>source = Some [utf16 ''request'', utf16 ''headers'', utf16 ''x''],
             required = Some True,
             name_transform = Some Header_nameTransform,
             value_transform = None,
             security = None\<rparr>) s"
proof -
  have X: "toLowerCase (utf16 ''X'') = utf16 ''x''"
    by (simp add: lower_eval)
  have bound: "nameTransform Header = Some Header_nameTransform"
    by (simp add: Header_def generateParameterSourceDecorator_def)
  have is_lower: "Header_nameTransform name = toLowerCase name"
    by (simp add: Header_nameTransform_def)
  have no_capital: "list_all (\<lambda>c. \<not> isASCIIUpper c) (Header_nameTransform name)"
    by (simp add: Header_nameTransform_def toLowerCase_no_capital)
  have pointwise: "list_all (\<lambda>c. \<not> isLeadingSurrogate c \<and> c \<noteq> 0x03A3) name \<longrightarrow>
        Header_nameTransform name = concat (map lowercaseOfCodeUnit name)"
    by (simp add: Header_nameTransform_def toLowerCase_pointwise)
  have ascii: "list_all isASCII name \<longrightarrow>
        Header_nameTransform name = map toASCIILower name
        \<and> length (Header_nameTransform name) = length name
        \<and> map Canonicalize (Header_nameTransform name) = map Canonicalize name"
    by (simp add: Header_nameTransform_def toLowerCase_ASCII_names Canonicalize_toASCIILower)
  have src: "source (sourceRequirement Header (Some name))
        = Some [utf16 ''request'', utf16 ''headers'', toLowerCase name]"
    by (simp add: Header_def Header_nameTransform_def generateParameterSourceDecorator_def
        sourceRequirement_def sourceName_def)
  have e1: "Header_nameTransform (utf16 ''X'') = utf16 ''x''"
    by (simp add: Header_nameTransform_def X)
  have e2: "Header_nameTransform (utf16 ''X-'' @ [0x00C9]) = utf16 ''x-'' @ [0x00E9]"
    by (simp add: Header_nameTransform_def lower_eval)
  have e3: "Header_nameTransform [0x039F, 0x0394, 0x039F, 0x03A3]
        = [0x03BF, 0x03B4, 0x03BF, 0x03C2]"
    by (simp add: Header_nameTransform_def lower_eval)
  have e4: "Header_nameTransform [0x039F, 0x03A3, 0x039F] = [0x03BF, 0x03C3, 0x03BF]"
    by (simp add: Header_nameTransform_def lower_eval)
  have e5: "Header_nameTransform [0x0130] = [0x0069, 0x0307]"
    by (simp add: Header_nameTransform_def lower_eval)
  have e6: "Header_nameTransform [0xD801, 0xDC00] = [0xD801, 0xDC28]"
    by (simp add: Header_nameTransform_def lower_eval)
  have app: "applySourceDecorator Header (Some (utf16 ''X'')) t k i s
        = attach (Parameter (t, k, i)
            \<lparr>source = Some [utf16 ''request'', utf16 ''headers'', utf16 ''x''],
             required = Some True,
             name_transform = Some Header_nameTransform,
             value_transform = None,
             security = None\<rparr>) s"
    by (simp add: Header_def Header_nameTransform_def decorator_eval X)
  from bound is_lower no_capital pointwise ascii src e1 e2 e3 e4 e5 e6 app
  show ?thesis by blast
qed

theorem Header_lowercases_source_name_witness:
  "list_all isASCII (utf16 ''X-Request-ID'')
   \<and> Header_nameTransform (utf16 ''X-Request-ID'') = utf16 ''x-request-id''
   \<and> length (Header_nameTransform (utf16 ''X-Request-ID'')) = 12
   \<and> map Canonicalize (Header_nameTransform (utf16 ''X-Request-ID''))
       = utf16 ''X-REQUEST-ID''
   \<and> list_all (\<lambda>c. \<not> isLeadingSurrogate c \<and> c \<noteq> 0x03A3) (utf16 ''X-'' @ [0x00C9])
   \<and> concat (map lowercaseOfCodeUnit (utf16 ''X-'' @ [0x00C9])) = utf16 ''x-'' @ [0x00E9]
   \<and> list_all (\<lambda>c. \<not> isASCIIUpper c) (utf16 ''x-'' @ [0x00E9])"
proof -
  have ascii: "list_all isASCII (utf16 ''X-Request-ID'')"
    by (simp add: utf16_def isASCII_def)
  have plain: "list_all (\<lambda>c. \<not> isLeadingSurrogate c \<and> c \<noteq> 0x03A3) (utf16 ''X-'' @ [0x00C9])"
    by (simp add: utf16_def isLeadingSurrogate_def)
  note th1 = Header_lowercases_source_name
    [where name = "utf16 ''X-Request-ID''" and t = "0::nat" and k = "[]" and i = 0
       and s = "\<lparr>heap = (), metadata = ([] :: (nat, nat, nat, nat) requirement list)\<rparr>"]
  note th2 = Header_lowercases_source_name
    [where name = "utf16 ''X-'' @ [0x00C9]" and t = "0::nat" and k = "[]" and i = 0
       and s = "\<lparr>heap = (), metadata = ([] :: (nat, nat, nat, nat) requirement list)\<rparr>"]
  from th1 ascii have low:
    "Header_nameTransform (utf16 ''X-Request-ID'') = map toASCIILower (utf16 ''X-Request-ID'')"
    "length (Header_nameTransform (utf16 ''X-Request-ID'')) = length (utf16 ''X-Request-ID'')"
    "map Canonicalize (Header_nameTransform (utf16 ''X-Request-ID''))
       = map Canonicalize (utf16 ''X-Request-ID'')"
    by blast+
  from th2 plain have each:
    "Header_nameTransform (utf16 ''X-'' @ [0x00C9])
       = concat (map lowercaseOfCodeUnit (utf16 ''X-'' @ [0x00C9]))"
    by blast
  from th2 have lowered: "Header_nameTransform (utf16 ''X-'' @ [0x00C9]) = utf16 ''x-'' @ [0x00E9]"
    and none: "list_all (\<lambda>c. \<not> isASCIIUpper c) (Header_nameTransform (utf16 ''X-'' @ [0x00C9]))"
    by blast+
  have "map toASCIILower (utf16 ''X-Request-ID'') = utf16 ''x-request-id''"
    by (simp add: string_eval)
  moreover have "length (utf16 ''X-Request-ID'') = 12"
    by (simp add: utf16_def)
  moreover have "map Canonicalize (utf16 ''X-Request-ID'') = utf16 ''X-REQUEST-ID''"
    by (simp add: string_eval)
  ultimately show ?thesis
    using ascii plain low each lowered none by simp
qed

text \<open>
  C4. For every middleware function \<open>a\<close> and every list of middleware functions,
  \<^verbatim>\<open>Use(a)\<close> attaches a method requirement whose middleware field is the one-element
  list \<open>[a]\<close>, and \<^verbatim>\<open>Use([a, b])\<close> attaches one whose middleware field is \<open>[a, b]\<close>: a
  single function and a list are normalized to the same list shape, so that \<^verbatim>\<open>Use(a)\<close>
  and \<^verbatim>\<open>Use([a])\<close> are the same decorator. No other field of the requirement is set.
\<close>

theorem Use_normalizes_middleware_to_list:
  "Use (Single a)
     = generateMethodDecorator
         \<lparr>requestValidator = None, middleware = Some [a], responseFormatter = None,
          responseContentType = None, docs = None\<rparr>
   \<and> Use (Array hs)
     = generateMethodDecorator
         \<lparr>requestValidator = None, middleware = Some hs, responseFormatter = None,
          responseContentType = None, docs = None\<rparr>
   \<and> Use (Single a) t k d s
     = (None, attach (Method (t, k)
         \<lparr>requestValidator = None, middleware = Some [a], responseFormatter = None,
          responseContentType = None, docs = None\<rparr>) s)
   \<and> Use (Array [a, b]) t k d s
     = (None, attach (Method (t, k)
         \<lparr>requestValidator = None, middleware = Some [a, b], responseFormatter = None,
          responseContentType = None, docs = None\<rparr>) s)
   \<and> Use (Single a) t k d s = Use (Array [a]) t k d s"
  by (simp add: Use_def decorator_eval)

text \<open>
  C5. The parameter requirements produced by the Optional and Required decorators are
  equal in every field except the required flag, which is false for Optional and true for
  Required: every other field of both is unset.
\<close>

theorem Optional_Required_differ_in_required_only:
  "Optional
     = generateParameterDecorator
         \<lparr>source = None, required = Some False, name_transform = None,
          value_transform = None, security = None\<rparr>
   \<and> Required
     = generateParameterDecorator
         \<lparr>source = None, required = Some True, name_transform = None,
          value_transform = None, security = None\<rparr>
   \<and> Optional t k i s
     = attach (Parameter (t, k, i)
         \<lparr>source = None, required = Some False, name_transform = None,
          value_transform = None, security = None\<rparr>) s
   \<and> Required t k i s
     = attach (Parameter (t, k, i)
         \<lparr>source = None, required = Some True, name_transform = None,
          value_transform = None, security = None\<rparr>) s"
  by (simp add: Optional_def Required_def decorator_eval)

text \<open>
  C6. For every validator \<open>v\<close> and boolean flag \<open>b\<close>, \<^verbatim>\<open>ValidateRequest(v, b)\<close> attaches
  a method-level requirement whose requestValidator field is a record with handler equal
  to \<open>v\<close> and runBeforeMiddleware equal to \<open>b\<close>, and no other fields of the method
  requirement are set.
\<close>

theorem ValidateRequest_attaches_validator:
  "ValidateRequest v (Some b)
     = generateMethodDecorator
         \<lparr>requestValidator = Some \<lparr>runBeforeMiddleware = b, handler = v\<rparr>,
          middleware = None, responseFormatter = None, responseContentType = None,
          docs = None\<rparr>
   \<and> ValidateRequest v (Some b) t k d s
     = (None, attach (Method (t, k)
         \<lparr>requestValidator = Some \<lparr>runBeforeMiddleware = b, handler = v\<rparr>,
          middleware = None, responseFormatter = None, responseContentType = None,
          docs = None\<rparr>) s)"
  by (simp add: ValidateRequest_def decorator_eval)

text \<open>
  C7. The decorator returned by \<^verbatim>\<open>ErrorReturn()\<close> (and its alternative spelling
  \<^verbatim>\<open>Throws()\<close>) is a no-op: applied to any method it returns no descriptor and leaves
  the whole state as it was, so it registers no metadata and changes neither the target
  nor the property nor the descriptor. \<^verbatim>\<open>Throws\<close> denotes the same factory as
  \<^verbatim>\<open>ErrorReturn\<close>.
\<close>

theorem ErrorReturn_is_a_no_op:
  "ErrorReturn () t k d s = (None, s)
   \<and> Throws () t k d s = (None, s)
   \<and> metadata (snd (ErrorReturn () t k d s)) = metadata s
   \<and> heap (snd (ErrorReturn () t k d s)) = heap s
   \<and> (Throws :: unit \<Rightarrow> ('o, 't, 'd, 'h, 'f, 'c) method_decorator) = ErrorReturn"
  by (simp add: ErrorReturn_def Throws_def)

text \<open>
  C8. The BearerToken parameter decorator is configured with the source path
  request, headers, authorization, the single-value flag false, the required flag false,
  no name transform, and a security-scheme contribution containing exactly one scheme,
  with type "http", scheme "bearer", bearerFormat "JWT" and description
  "JWT Bearer Token".
\<close>

theorem BearerToken_configuration:
  "path BearerToken = [utf16 ''request'', utf16 ''headers'', utf16 ''authorization'']
   \<and> isSingleValue BearerToken = False
   \<and> isRequired BearerToken = False
   \<and> nameTransform BearerToken = None
   \<and> map_option securitySchemes (securityContribution BearerToken)
       = Some [[(utf16 ''description'', utf16 ''JWT Bearer Token''),
                (utf16 ''type'', utf16 ''http''),
                (utf16 ''scheme'', utf16 ''bearer''),
                (utf16 ''bearerFormat'', utf16 ''JWT'')]]"
  by (simp add: BearerToken_def generateParameterSourceDecorator_def)

text \<open>
  C9. When \<^verbatim>\<open>ValidateRequest\<close> is called with the runBeforeMiddleware argument omitted,
  the attached validator requirement has runBeforeMiddleware equal to false: the call is
  the same as the one that passes false.
\<close>

theorem ValidateRequest_default_runs_after_middleware:
  "ValidateRequest v None t k d s
     = (None, attach (Method (t, k)
         \<lparr>requestValidator = Some \<lparr>runBeforeMiddleware = False, handler = v\<rparr>,
          middleware = None, responseFormatter = None, responseContentType = None,
          docs = None\<rparr>) s)
   \<and> ValidateRequest v None t k d s = ValidateRequest v (Some False) t k d s"
  by (simp add: ValidateRequest_def decorator_eval)

text \<open>
  C10. BearerToken's value transform removes only the first case-insensitive occurrence
  of "Bearer" followed by at least one white space character, anywhere in the string, not
  anchored to the start: what stands before the occurrence is kept, "Bearer" and the run
  of white space after it are removed, and the rest is kept as it is, later occurrences
  included. A value with no such occurrence (as "Bearerabc" or "abc123") is returned
  unchanged, and "xBearer y" becomes "xy".
\<close>

theorem BearerToken_transform_removes_first_occurrence:
  "valueTransform BearerToken = Some BearerToken_valueTransform
   \<and> ((\<forall>i. \<not> bearerOccursAt s i) \<longrightarrow>
      BearerToken_valueTransform (JSString s) = Inr (JSString s))
   \<and> (bearerOccursAt s i \<and> (\<forall>j<i. \<not> bearerOccursAt s j) \<longrightarrow>
      BearerToken_valueTransform (JSString s)
        = Inr (JSString (take i s @ dropWhile isWhiteSpace (drop (i + 6) s))))
   \<and> BearerToken_valueTransform (JSString (utf16 ''Bearerabc''))
        = Inr (JSString (utf16 ''Bearerabc''))
   \<and> BearerToken_valueTransform (JSString (utf16 ''abc123''))
        = Inr (JSString (utf16 ''abc123''))
   \<and> BearerToken_valueTransform (JSString (utf16 ''xBearer y''))
        = Inr (JSString (utf16 ''xy''))
   \<and> BearerToken_valueTransform (JSString (utf16 ''bearer  Bearer z''))
        = Inr (JSString (utf16 ''Bearer z''))"
proof -
  have bound: "valueTransform BearerToken = Some BearerToken_valueTransform"
    by (simp add: BearerToken_def generateParameterSourceDecorator_def)
  have none: "(\<forall>i. \<not> bearerOccursAt s i) \<longrightarrow>
      BearerToken_valueTransform (JSString s) = Inr (JSString s)"
    by (simp add: BearerToken_valueTransform_def replaceBearer_no_occurrence)
  have first: "bearerOccursAt s i \<and> (\<forall>j<i. \<not> bearerOccursAt s j) \<longrightarrow>
      BearerToken_valueTransform (JSString s)
        = Inr (JSString (take i s @ dropWhile isWhiteSpace (drop (i + 6) s)))"
    by (simp add: BearerToken_valueTransform_def replaceBearer_first_occurrence)
  have e1: "BearerToken_valueTransform (JSString (utf16 ''Bearerabc''))
        = Inr (JSString (utf16 ''Bearerabc''))"
    by (simp add: BearerToken_valueTransform_def string_eval)
  have e2: "BearerToken_valueTransform (JSString (utf16 ''abc123''))
        = Inr (JSString (utf16 ''abc123''))"
    by (simp add: BearerToken_valueTransform_def string_eval)
  have e3: "BearerToken_valueTransform (JSString (utf16 ''xBearer y''))
        = Inr (JSString (utf16 ''xy''))"
    by (simp add: BearerToken_valueTransform_def string_eval)
  have e4: "BearerToken_valueTransform (JSString (utf16 ''bearer  Bearer z''))
        = Inr (JSString (utf16 ''Bearer z''))"
    by (simp add: BearerToken_valueTransform_def string_eval)
  from bound none first e1 e2 e3 e4 show ?thesis by blast
qed

theorem BearerToken_transform_removes_first_occurrence_witness:
  "(\<forall>i. \<not> bearerOccursAt (utf16 ''abc123'') i)
   \<and> bearerOccursAt (utf16 ''xBearer  y Bearer z'') 1
   \<and> \<not> bearerOccursAt (utf16 ''xBearer  y Bearer z'') 0
   \<and> BearerToken_valueTransform (JSString (utf16 ''abc123''))
        = Inr (JSString (utf16 ''abc123''))
   \<and> BearerToken_valueTransform (JSString (utf16 ''xBearer  y Bearer z''))
        = Inr (JSString (utf16 ''xy Bearer z''))"
proof -
  have no: "\<forall>i. \<not> bearerOccursAt (utf16 ''abc123'') i"
    by (simp add: bearerOccursAt_def utf16_def)
  have at1: "bearerOccursAt (utf16 ''xBearer  y Bearer z'') 1"
    by (simp add: string_eval)
  have before: "\<forall>j<1. \<not> bearerOccursAt (utf16 ''xBearer  y Bearer z'') j"
    by (simp add: string_eval)
  have cut: "take 1 (utf16 ''xBearer  y Bearer z'')
        @ dropWhile isWhiteSpace (drop (1 + 6) (utf16 ''xBearer  y Bearer z''))
      = utf16 ''xy Bearer z''"
    by (simp add: string_eval)
  from BearerToken_transform_removes_first_occurrence [of "utf16 ''abc123''" 0] no
  have r1: "BearerToken_valueTransform (JSString (utf16 ''abc123''))
        = Inr (JSString (utf16 ''abc123''))"
    by blast
  from BearerToken_transform_removes_first_occurrence [of "utf16 ''xBearer  y Bearer z''" 1]
    at1 before
  have "BearerToken_valueTransform (JSString (utf16 ''xBearer  y Bearer z''))
        = Inr (JSString (take 1 (utf16 ''xBearer  y Bearer z'')
            @ dropWhile isWhiteSpace (drop (1 + 6) (utf16 ''xBearer  y Bearer z''))))"
    by blast
  then have r2: "BearerToken_valueTransform (JSString (utf16 ''xBearer  y Bearer z''))
        = Inr (JSString (utf16 ''xy Bearer z''))"
    by (simp only: cut)
  have not0: "\<not> bearerOccursAt (utf16 ''xBearer  y Bearer z'') 0"
    using before by simp
  from no at1 not0 r1 r2 show ?thesis by blast
qed

end
